theory Spec2Isabelle
  imports Main "HOL-Library.AList"
begin

section \<open>Python values and dictionaries\<close>

text \<open>
  The three backends keep their jobs in Python dictionaries whose values are strings,
  numbers, timestamps, lists and further dictionaries. A dictionary is an association
  list in insertion order: assigning to a key that is present replaces its value in
  place, assigning to a new key appends it, as Python does.
  \<open>PDateTime s\<close> is a \<open>datetime\<close> object whose \<open>isoformat()\<close> is \<open>s\<close>;
  \<open>PFloat m e\<close> is the decimal number \<open>m / 10 ^ e\<close> (the binary rounding of
  Python floats is not modelled; no property below reads such a number).
\<close>

datatype pyval =
    PNone
  | PBool bool
  | PInt int
  | PFloat int nat
  | PStr string
  | PDateTime string
  | PList "pyval list"
  | PDict "(string \<times> pyval) list"

type_synonym pydict = "(string \<times> pyval) list"

text \<open>\<open>d.get(k)\<close> as an option, \<open>k in d\<close>, \<open>d[k] = v\<close>, \<open>d.get(k, dflt)\<close>.\<close>

definition dget :: "pydict \<Rightarrow> string \<Rightarrow> pyval option" where
  "dget d k = map_of d k"

definition has_key :: "pydict \<Rightarrow> string \<Rightarrow> bool" where
  "has_key d k = (dget d k \<noteq> None)"

definition dset :: "string \<Rightarrow> pyval \<Rightarrow> pydict \<Rightarrow> pydict" where
  "dset k v d = AList.update k v d"

definition get_or :: "pydict \<Rightarrow> string \<Rightarrow> pyval \<Rightarrow> pyval" where
  "get_or d k dflt = (case dget d k of None \<Rightarrow> dflt | Some v \<Rightarrow> v)"

text \<open>
  A dictionary display \<open>{k1: v1, ..., kn: vn}\<close> inserts its items from left to right,
  so a key written twice keeps the value written last.
\<close>

definition dict_lit :: "(string \<times> pyval) list \<Rightarrow> pydict" where
  "dict_lit kvs = foldl (\<lambda>d (k, v). dset k v d) [] kvs"

text \<open>Python truthiness (\<open>if x:\<close>, \<open>not x\<close>, \<open>x or y\<close>).\<close>

fun truthy :: "pyval \<Rightarrow> bool" where
  "truthy PNone = False"
| "truthy (PBool b) = b"
| "truthy (PInt i) = (i \<noteq> 0)"
| "truthy (PFloat m e) = (m \<noteq> 0)"
| "truthy (PStr s) = (s \<noteq> [])"
| "truthy (PDateTime s) = True"
| "truthy (PList xs) = (xs \<noteq> [])"
| "truthy (PDict d) = (d \<noteq> [])"

text \<open>The name Python prints for the type of a value, and \<open>len\<close>, which raises
  \<open>TypeError\<close> (here \<open>None\<close>) on a value without a length.\<close>

fun type_name :: "pyval \<Rightarrow> string" where
  "type_name PNone = ''NoneType''"
| "type_name (PBool b) = ''bool''"
| "type_name (PInt i) = ''int''"
| "type_name (PFloat m e) = ''float''"
| "type_name (PStr s) = ''str''"
| "type_name (PDateTime s) = ''datetime.datetime''"
| "type_name (PList xs) = ''list''"
| "type_name (PDict d) = ''dict''"

fun py_len :: "pyval \<Rightarrow> nat option" where
  "py_len (PStr s) = Some (length s)"
| "py_len (PList xs) = Some (length xs)"
| "py_len (PDict d) = Some (length d)"
| "py_len v = None"

definition len_type_error :: "pyval \<Rightarrow> string" where
  "len_type_error v = ''object of type '' @ [CHR 0x27] @ type_name v @ [CHR 0x27] @ '' has no len()''"

text \<open>Decimal rendering of a natural number (\<open>str(n)\<close>, and \<open>{n}\<close> in an f-string).\<close>

fun string_of_nat :: "nat \<Rightarrow> string" where
  "string_of_nat n =
     (if n < 10 then [char_of (48 + n)]
      else string_of_nat (n div 10) @ [char_of (48 + n mod 10)])"

declare string_of_nat.simps [simp del]

lemma dget_dset [simp]: "dget (dset k v d) k' = (if k' = k then Some v else dget d k')"
  by (simp add: dget_def dset_def update_conv')

lemma dget_Nil [simp]: "dget [] k = None"
  by (simp add: dget_def)

lemma dset_not_Nil [simp]: "dset k v d \<noteq> []"
  by (simp add: dset_def)

lemma has_key_dset [simp]: "has_key (dset k v d) k' = (k' = k \<or> has_key d k')"
  by (simp add: has_key_def)

lemma dict_lit_Nil [simp]: "dict_lit [] = []"
  by (simp add: dict_lit_def)

lemma dict_lit_snoc [simp]: "dict_lit (kvs @ [(k, v)]) = dset k v (dict_lit kvs)"
  by (simp add: dict_lit_def)

section \<open>Voice backend (voice_backend.py)\<close>

text \<open>
  \<open>VoiceBackend\<close> holds the provider table, the job table and the voices of each
  user. The environment variables read by the constructor are a parameter.
\<close>

record voice_backend =
  providers :: "string \<rightharpoonup> pydict"
  voice_jobs :: "string \<rightharpoonup> pydict"
  user_voices :: "string \<rightharpoonup> pyval list"

definition getenv_or :: "(string \<rightharpoonup> string) \<Rightarrow> string \<Rightarrow> string \<Rightarrow> pyval" where
  "getenv_or env k dflt = (case env k of None \<Rightarrow> PStr dflt | Some v \<Rightarrow> PStr v)"

definition voice_backend_init :: "(string \<rightharpoonup> string) \<Rightarrow> voice_backend" where
  "voice_backend_init env =
     \<lparr> providers =
         [ ''elevenlabs'' \<mapsto> dict_lit
             [(''api_key'', getenv_or env ''ELEVENLABS_API_KEY'' ''demo_key''),
              (''base_url'', PStr ''https://api.elevenlabs.io/v1''),
              (''enabled'', PBool True)],
           ''azure'' \<mapsto> dict_lit
             [(''api_key'', getenv_or env ''AZURE_SPEECH_KEY'' ''demo_key''),
              (''region'', getenv_or env ''AZURE_SPEECH_REGION'' ''eastus''),
              (''enabled'', PBool True)],
           ''google'' \<mapsto> dict_lit
             [(''api_key'', getenv_or env ''GOOGLE_TTS_API_KEY'' ''demo_key''),
              (''enabled'', PBool True)],
           ''speechelo'' \<mapsto> dict_lit
             [(''api_key'', getenv_or env ''SPEECHELO_API_KEY'' ''demo_key''),
              (''base_url'', PStr ''https://api.speechelo.io/v1''),
              (''enabled'', PBool True)] ],
       voice_jobs = Map.empty,
       user_voices = Map.empty \<rparr>"

subsection \<open>The simulated providers\<close>

text \<open>
  Each provider sleeps, builds a URL from the voice id and \<open>int(time.time())\<close> (the
  parameter \<open>epoch\<close>) and estimates duration and size from \<open>len(text)\<close>. An exception
  in the body (\<open>len\<close> of a value without a length) is caught and returned as an error
  result.
\<close>

definition voice_url :: "string \<Rightarrow> string \<Rightarrow> nat \<Rightarrow> string \<Rightarrow> string" where
  "voice_url prefix voice_id epoch ext =
     ''https://contentx-studio.s3.amazonaws.com/voices/'' @ prefix @ ''_'' @ voice_id @ ''_''
       @ string_of_nat epoch @ ext"

definition generate_elevenlabs_voice :: "pyval \<Rightarrow> string \<Rightarrow> string \<Rightarrow> nat \<Rightarrow> pydict" where
  "generate_elevenlabs_voice text voice_id quality epoch =
     (case py_len text of
        Some n \<Rightarrow> dict_lit
          [(''status'', PStr ''success''),
           (''audio_url'', PStr (voice_url ''elevenlabs'' voice_id epoch ''.mp3'')),
           (''duration'', PFloat (int n) 1),
           (''file_size'', PInt (int n * 1000)),
           (''provider'', PStr ''elevenlabs'')]
      | None \<Rightarrow> dict_lit
          [(''status'', PStr ''error''),
           (''error'', PStr (''ElevenLabs generation failed: '' @ len_type_error text))])"

definition generate_azure_voice :: "pyval \<Rightarrow> string \<Rightarrow> string \<Rightarrow> nat \<Rightarrow> pydict" where
  "generate_azure_voice text voice_id quality epoch =
     (case py_len text of
        Some n \<Rightarrow> dict_lit
          [(''status'', PStr ''success''),
           (''audio_url'', PStr (voice_url ''azure'' voice_id epoch ''.wav'')),
           (''duration'', PFloat (int n * 12) 2),
           (''file_size'', PInt (int n * 1200)),
           (''provider'', PStr ''azure'')]
      | None \<Rightarrow> dict_lit
          [(''status'', PStr ''error''),
           (''error'', PStr (''Azure generation failed: '' @ len_type_error text))])"

definition generate_google_voice :: "pyval \<Rightarrow> string \<Rightarrow> string \<Rightarrow> nat \<Rightarrow> pydict" where
  "generate_google_voice text voice_id quality epoch =
     (case py_len text of
        Some n \<Rightarrow> dict_lit
          [(''status'', PStr ''success''),
           (''audio_url'', PStr (voice_url ''google'' voice_id epoch ''.mp3'')),
           (''duration'', PFloat (int n * 11) 2),
           (''file_size'', PInt (int n * 1100)),
           (''provider'', PStr ''google'')]
      | None \<Rightarrow> dict_lit
          [(''status'', PStr ''error''),
           (''error'', PStr (''Google generation failed: '' @ len_type_error text))])"

definition generate_speechelo_voice :: "pyval \<Rightarrow> string \<Rightarrow> string \<Rightarrow> nat \<Rightarrow> pydict" where
  "generate_speechelo_voice text voice_id quality epoch =
     (case py_len text of
        Some n \<Rightarrow> dict_lit
          [(''status'', PStr ''success''),
           (''audio_url'', PStr (voice_url ''speechelo'' voice_id epoch ''.mp3'')),
           (''duration'', PFloat (int n * 13) 2),
           (''file_size'', PInt (int n * 1300)),
           (''provider'', PStr ''speechelo'')]
      | None \<Rightarrow> dict_lit
          [(''status'', PStr ''error''),
           (''error'', PStr (''Speechelo generation failed: '' @ len_type_error text))])"

text \<open>The \<open>if\<close>/\<open>elif\<close> chain of \<open>generate_voice\<close> that picks the provider.\<close>

definition call_provider :: "string \<Rightarrow> pyval \<Rightarrow> string \<Rightarrow> string \<Rightarrow> nat \<Rightarrow> pydict" where
  "call_provider provider text voice_id quality epoch =
     (if provider = ''elevenlabs'' then generate_elevenlabs_voice text voice_id quality epoch
      else if provider = ''azure'' then generate_azure_voice text voice_id quality epoch
      else if provider = ''google'' then generate_google_voice text voice_id quality epoch
      else if provider = ''speechelo'' then generate_speechelo_voice text voice_id quality epoch
      else dict_lit [(''status'', PStr ''error''), (''error'', PStr ''Unknown provider'')])"

subsection \<open>generate_voice\<close>

text \<open>
  \<open>generate_voice\<close> is a coroutine with one suspension point, the awaited provider
  call. \<open>generate_voice_begin\<close> is the code up to that point: it either returns at once
  (\<open>Some\<close> response: the provider is not registered, has no \<open>enabled\<close> entry, or is
  disabled) or stores the new job and suspends (\<open>None\<close>). \<open>generate_voice_finish\<close>
  is the code after the provider has returned. The job id drawn by \<open>uuid.uuid4()\<close>
  and the clock are parameters. \<open>job\<close> in the source is the very dictionary stored
  under \<open>job_id\<close>, so its assignments are written to the table entry.
  With a string for the provider name no statement of the body raises outside the
  providers, which catch their own exceptions, so the outer \<open>except\<close> clause has no
  branch here; the one lookup that can fail, \<open>self.providers[provider]["enabled"]\<close>,
  is the \<open>KeyError\<close> branch of \<open>generate_voice_begin\<close>.
\<close>

definition opt_str :: "string option \<Rightarrow> pyval" where
  "opt_str u = (case u of None \<Rightarrow> PNone | Some s \<Rightarrow> PStr s)"

definition generate_voice_begin ::
  "voice_backend \<Rightarrow> string \<Rightarrow> pyval \<Rightarrow> string \<Rightarrow> string \<Rightarrow> string option \<Rightarrow> string \<Rightarrow> string
     \<Rightarrow> voice_backend \<times> pyval option" where
  "generate_voice_begin vb job_id text voice_id provider user_id quality now =
     (case providers vb provider of
        None \<Rightarrow>
          (vb, Some (PDict (dict_lit
             [(''status'', PStr ''error''),
              (''error'', PStr (''Unsupported provider: '' @ provider))])))
      | Some cfg \<Rightarrow>
          (case dget cfg ''enabled'' of
             None \<Rightarrow>
               (vb, Some (PDict (dict_lit
                  [(''status'', PStr ''error''),
                   (''error'', PStr ([CHR 0x27] @ ''enabled'' @ [CHR 0x27]))])))
           | Some en \<Rightarrow>
               if \<not> truthy en then
                 (vb, Some (PDict (dict_lit
                    [(''status'', PStr ''error''),
                     (''error'', PStr (''Provider '' @ provider @ '' is not enabled''))])))
               else
                 (vb\<lparr>voice_jobs := (voice_jobs vb)(job_id \<mapsto> dict_lit
                    [(''job_id'', PStr job_id),
                     (''text'', text),
                     (''voice_id'', PStr voice_id),
                     (''provider'', PStr provider),
                     (''user_id'', opt_str user_id),
                     (''quality'', PStr quality),
                     (''status'', PStr ''processing''),
                     (''created_at'', PStr now),
                     (''progress'', PInt 0)])\<rparr>, None)))"

definition append_user_voice :: "voice_backend \<Rightarrow> string \<Rightarrow> pyval \<Rightarrow> voice_backend" where
  "append_user_voice vb user_id entry =
     vb\<lparr>user_voices := (user_voices vb)(user_id \<mapsto>
        (case user_voices vb user_id of None \<Rightarrow> [] | Some vs \<Rightarrow> vs) @ [entry])\<rparr>"

text \<open>The assignments to \<open>job\<close> under "Update job status" (lines 131-153).\<close>

definition update_job_status :: "pydict \<Rightarrow> pydict \<Rightarrow> string \<Rightarrow> pydict" where
  "update_job_status job result now =
     (if dget result ''status'' = Some (PStr ''success'') then
        dset ''completed_at'' (PStr now)
          (dset ''file_size'' (get_or result ''file_size'' (PInt 0))
            (dset ''duration'' (get_or result ''duration'' (PInt 0))
              (dset ''audio_url'' (get_or result ''audio_url'' PNone)
                (dset ''progress'' (PInt 100)
                  (dset ''status'' (PStr ''completed'') job)))))
      else
        dset ''failed_at'' (PStr now)
          (dset ''error'' (get_or result ''error'' (PStr ''Unknown error''))
            (dset ''status'' (PStr ''failed'') job)))"

definition generate_voice_finish ::
  "voice_backend \<Rightarrow> string \<Rightarrow> string \<Rightarrow> string \<Rightarrow> string option \<Rightarrow> pydict \<Rightarrow> string
     \<Rightarrow> voice_backend \<times> pyval" where
  "generate_voice_finish vb job_id voice_id provider user_id result now =
     (case voice_jobs vb job_id of
        None \<Rightarrow> (vb, PNone)
      | Some job0 \<Rightarrow>
          let job = update_job_status job0 result now;
              vb1 = vb\<lparr>voice_jobs := (voice_jobs vb)(job_id \<mapsto> job)\<rparr>;
              vb2 =
                (if dget result ''status'' = Some (PStr ''success'') then
                   (case user_id of
                      None \<Rightarrow> vb1
                    | Some u \<Rightarrow>
                        if u = [] then vb1
                        else append_user_voice vb1 u (PDict (dict_lit
                          [(''voice_id'', PStr voice_id),
                           (''provider'', PStr provider),
                           (''created_at'', get_or job ''created_at'' PNone),
                           (''audio_url'', get_or result ''audio_url'' PNone)])))
                 else vb1)
          in (vb2, PDict (dict_lit
                [(''status'', PStr ''success''),
                 (''job_id'', PStr job_id),
                 (''status'', get_or job ''status'' PNone),
                 (''audio_url'', get_or job ''audio_url'' PNone),
                 (''duration'', get_or job ''duration'' (PInt 0)),
                 (''provider'', PStr provider),
                 (''voice_id'', PStr voice_id)])))"

text \<open>A whole call of \<open>generate_voice\<close>, with nothing scheduled in between.\<close>

definition generate_voice ::
  "voice_backend \<Rightarrow> string \<Rightarrow> pyval \<Rightarrow> string \<Rightarrow> string \<Rightarrow> string option \<Rightarrow> string
     \<Rightarrow> string \<Rightarrow> nat \<Rightarrow> string \<Rightarrow> voice_backend \<times> pyval" where
  "generate_voice vb job_id text voice_id provider user_id quality now epoch now' =
     (case generate_voice_begin vb job_id text voice_id provider user_id quality now of
        (vb1, Some response) \<Rightarrow> (vb1, response)
      | (vb1, None) \<Rightarrow>
          generate_voice_finish vb1 job_id voice_id provider user_id
            (call_provider provider text voice_id quality epoch) now')"

subsection \<open>get_voice_status\<close>

definition get_voice_status :: "voice_backend \<Rightarrow> string \<Rightarrow> voice_backend \<times> pyval" where
  "get_voice_status vb job_id =
     (case voice_jobs vb job_id of
        None \<Rightarrow>
          (vb, PDict (dict_lit
             [(''status'', PStr ''error''), (''error'', PStr ''Job not found'')]))
      | Some job \<Rightarrow>
          (vb, PDict (dict_lit
             [(''status'', PStr ''success''),
              (''job_id'', PStr job_id),
              (''status'', get_or job ''status'' PNone),
              (''progress'', get_or job ''progress'' (PInt 0)),
              (''audio_url'', get_or job ''audio_url'' PNone),
              (''duration'', get_or job ''duration'' (PInt 0)),
              (''file_size'', get_or job ''file_size'' (PInt 0)),
              (''provider'', get_or job ''provider'' PNone),
              (''voice_id'', get_or job ''voice_id'' PNone),
              (''created_at'', get_or job ''created_at'' PNone),
              (''completed_at'', get_or job ''completed_at'' PNone),
              (''error'', get_or job ''error'' PNone)])))"

text \<open>Reading a field of a returned value (\<open>result["status"]\<close> at the caller).\<close>

definition field :: "pyval \<Rightarrow> string \<Rightarrow> pyval option" where
  "field r k = (case r of PDict d \<Rightarrow> dget d k | _ \<Rightarrow> None)"

subsection \<open>Calls of generate_voice interleaved on the event loop\<close>

text \<open>
  While a call of \<open>generate_voice\<close> waits for its provider, the event loop runs other
  coroutines. A suspended call keeps its local variables; the events are the atomic
  pieces of code between suspension points. \<open>uuid.uuid4()\<close> draws an id that is not
  in the job table, so a call with an id already there is not scheduled.
\<close>

record voice_call =
  vc_text :: pyval
  vc_voice_id :: string
  vc_provider :: string
  vc_user_id :: "string option"
  vc_quality :: string

record voice_sys =
  backend :: voice_backend
  pending :: "string \<rightharpoonup> voice_call"

datatype voice_event =
    CallGenerateVoice string pyval string string "string option" string string
  | ProviderReturns string nat string
  | CallGetVoiceStatus string

fun voice_step :: "voice_sys \<Rightarrow> voice_event \<Rightarrow> voice_sys" where
  "voice_step s (CallGenerateVoice job_id text voice_id provider user_id quality now) =
     (if voice_jobs (backend s) job_id \<noteq> None then s
      else
        (case generate_voice_begin (backend s) job_id text voice_id provider user_id quality now of
           (vb, Some response) \<Rightarrow> s\<lparr>backend := vb\<rparr>
         | (vb, None) \<Rightarrow>
             s\<lparr>backend := vb,
               pending := (pending s)(job_id \<mapsto>
                 \<lparr>vc_text = text, vc_voice_id = voice_id, vc_provider = provider,
                  vc_user_id = user_id, vc_quality = quality\<rparr>)\<rparr>))"
| "voice_step s (ProviderReturns job_id epoch now) =
     (case pending s job_id of
        None \<Rightarrow> s
      | Some c \<Rightarrow>
          s\<lparr>backend :=
              fst (generate_voice_finish (backend s) job_id (vc_voice_id c) (vc_provider c)
                     (vc_user_id c)
                     (call_provider (vc_provider c) (vc_text c) (vc_voice_id c) (vc_quality c) epoch)
                     now),
            pending := (pending s)(job_id := None)\<rparr>)"
| "voice_step s (CallGetVoiceStatus job_id) =
     s\<lparr>backend := fst (get_voice_status (backend s) job_id)\<rparr>"


text \<open>What the status queries for job \<open>j\<close> return along a schedule, in order.\<close>

fun voice_polls :: "voice_sys \<Rightarrow> voice_event list \<Rightarrow> string \<Rightarrow> pyval list" where
  "voice_polls s [] j = []"
| "voice_polls s (ev # evs) j =
     (case ev of
        CallGetVoiceStatus j' \<Rightarrow>
          if j' = j then [snd (get_voice_status (backend s) j)] else []
      | _ \<Rightarrow> [])
     @ voice_polls (voice_step s ev) evs j"

definition voice_sys_init :: "(string \<rightharpoonup> string) \<Rightarrow> voice_sys" where
  "voice_sys_init env = \<lparr>backend = voice_backend_init env, pending = Map.empty\<rparr>"

definition terminal_voice_status :: "pyval option \<Rightarrow> bool" where
  "terminal_voice_status v = (v = Some (PStr ''completed'') \<or> v = Some (PStr ''failed''))"

section \<open>References to job dictionaries\<close>

text \<open>
  A Python variable holds a reference. After \<open>job = self.generation_jobs[job_id]\<close> the
  variable is the stored dictionary itself, and \<open>job[k] = v\<close> changes the table entry;
  after \<open>result = job.copy()\<close> the variable is a new dictionary, and \<open>result[k] = v\<close>
  changes nothing that is stored. \<open>Stored j\<close> is the dictionary kept under key \<open>j\<close> of
  a job table, \<open>Copied d\<close> a dictionary of its own.
\<close>

type_synonym job_table = "string \<rightharpoonup> pydict"

datatype job_ref = Stored string | Copied pydict

definition deref :: "job_table \<Rightarrow> job_ref \<Rightarrow> pydict" where
  "deref tbl r =
     (case r of
        Stored j \<Rightarrow> (case tbl j of None \<Rightarrow> [] | Some d \<Rightarrow> d)
      | Copied d \<Rightarrow> d)"

definition store_item :: "job_table \<Rightarrow> string \<Rightarrow> string \<Rightarrow> pyval \<Rightarrow> job_table" where
  "store_item tbl j k v = (case tbl j of None \<Rightarrow> tbl | Some d \<Rightarrow> tbl(j \<mapsto> dset k v d))"

definition setitem :: "job_table \<Rightarrow> job_ref \<Rightarrow> string \<Rightarrow> pyval \<Rightarrow> job_table \<times> job_ref" where
  "setitem tbl r k v =
     (case r of
        Stored j \<Rightarrow> (store_item tbl j k v, Stored j)
      | Copied d \<Rightarrow> (tbl, Copied (dset k v d)))"

definition copy_dict :: "job_table \<Rightarrow> job_ref \<Rightarrow> job_ref" where
  "copy_dict tbl r = Copied (deref tbl r)"

text \<open>
  \<open>if k in result and hasattr(result[k], 'isoformat'): result[k] = result[k].isoformat()\<close>
\<close>

definition isoformat_item :: "job_table \<Rightarrow> job_ref \<Rightarrow> string \<Rightarrow> job_table \<times> job_ref" where
  "isoformat_item tbl r k =
     (case dget (deref tbl r) k of
        Some (PDateTime s) \<Rightarrow> setitem tbl r k (PStr s)
      | _ \<Rightarrow> (tbl, r))"

section \<open>Content backend (real_content_backend.py)\<close>

record content_backend =
  generation_jobs :: job_table
  user_models :: "string \<rightharpoonup> pydict"
  voice_cache :: "string \<rightharpoonup> string"
  batch_queue :: "pyval list"

definition content_backend_init :: content_backend where
  "content_backend_init =
     \<lparr>generation_jobs = Map.empty, user_models = Map.empty, voice_cache = Map.empty,
      batch_queue = []\<rparr>"

subsection \<open>generate_content\<close>

text \<open>
  \<open>generate_content\<close> stores the new job, starts \<open>_generate_real_content_async\<close> as a
  task and returns; it has no suspension point. \<open>minutes\<close> is the number drawn by
  \<open>random.randint(2, 8)\<close>.
\<close>

definition generate_content ::
  "content_backend \<Rightarrow> string \<Rightarrow> string \<Rightarrow> string \<Rightarrow> string \<Rightarrow> string \<Rightarrow> nat
     \<Rightarrow> content_backend \<times> pyval" where
  "generate_content cb job_id user_id script content_type now minutes =
     (cb\<lparr>generation_jobs := (generation_jobs cb)(job_id \<mapsto> dict_lit
         [(''status'', PStr ''processing''),
          (''progress'', PInt 0),
          (''created_at'', PDateTime now),
          (''user_id'', PStr user_id),
          (''content_type'', PStr content_type),
          (''script_length'', PInt (int (length script)))])\<rparr>,
      PDict (dict_lit
         [(''status'', PStr ''processing''),
          (''job_id'', PStr job_id),
          (''estimated_time'', PStr (string_of_nat minutes @ '' minutes'')),
          (''content_type'', PStr content_type),
          (''script_length'', PInt (int (length script)))]))"

subsection \<open>The background task\<close>

text \<open>
  \<open>_generate_real_content_async\<close> suspends only in its four \<open>asyncio.sleep\<close> calls
  (the two file-creating helpers contain no suspension point). A suspended task keeps
  its arguments and the sleep it waits in. Which sleep comes next is decided by the two
  \<open>if\<close> conditions before it is entered.
\<close>

datatype gen_pc = SleepScript | SleepVoice | SleepVideo | SleepFinal

record gen_task =
  gt_user_id :: string
  gt_script :: string
  gt_content_type :: string
  gt_voice_model_id :: "string option"
  gt_avatar_model_id :: "string option"
  gt_pc :: gen_pc

definition truthy_opt :: "string option \<Rightarrow> bool" where
  "truthy_opt u = (case u of None \<Rightarrow> False | Some s \<Rightarrow> s \<noteq> [])"

definition wants_voice :: "gen_task \<Rightarrow> bool" where
  "wants_voice t =
     (truthy_opt (gt_voice_model_id t)
      \<and> (gt_content_type t = ''video'' \<or> gt_content_type t = ''audio''))"

definition wants_video :: "gen_task \<Rightarrow> bool" where
  "wants_video t = (truthy_opt (gt_avatar_model_id t) \<and> gt_content_type t = ''video'')"

text \<open>
  The two helpers write a file and return its name; an error of the file system
  (\<open>io_error = Some e\<close>, with \<open>e\<close> the text of the exception) is raised again as
  \<open>Exception("... generation failed: e")\<close>.
\<close>

definition create_real_voice :: "string \<Rightarrow> nat \<Rightarrow> string option \<Rightarrow> string + string" where
  "create_real_voice user_id epoch io_error =
     (case io_error of
        Some e \<Rightarrow> Inl (''Voice generation failed: '' @ e)
      | None \<Rightarrow> Inr (''generated_voice_'' @ user_id @ ''_'' @ string_of_nat epoch @ ''.mp3''))"

definition create_real_instagram_reel :: "string \<Rightarrow> nat \<Rightarrow> string option \<Rightarrow> string + string" where
  "create_real_instagram_reel user_id epoch io_error =
     (case io_error of
        Some e \<Rightarrow> Inl (''Video generation failed: '' @ e)
      | None \<Rightarrow> Inr (''instagram_reel_'' @ user_id @ ''_'' @ string_of_nat epoch @ ''.mp4''))"

text \<open>The \<open>except\<close> handler of the task (lines 306-310).\<close>

definition generation_failed :: "job_table \<Rightarrow> string \<Rightarrow> string \<Rightarrow> job_table" where
  "generation_failed tbl job_id msg =
     store_item
       (store_item
         (store_item tbl job_id ''status'' (PStr ''failed''))
         job_id ''error'' (PStr msg))
       job_id ''current_step'' (PStr (''Generation failed: '' @ msg))"

text \<open>
  One atomic piece of the task: the code from the end of the sleep it waits in to the
  next sleep, or to its end (\<open>None\<close>).
\<close>

definition generate_real_content_resume ::
  "job_table \<Rightarrow> string \<Rightarrow> gen_task \<Rightarrow> string option \<Rightarrow> nat \<Rightarrow> string
     \<Rightarrow> job_table \<times> gen_task option" where
  "generate_real_content_resume tbl job_id t io_error epoch now =
     (case gt_pc t of
        SleepScript \<Rightarrow>
          let tbl1 = store_item tbl job_id ''progress'' (PInt 20);
              tbl2 = store_item tbl1 job_id ''current_step''
                       (PStr ''Processing script and analyzing content structure'')
          in (tbl2, Some (t\<lparr>gt_pc :=
                 (if wants_voice t then SleepVoice
                  else if wants_video t then SleepVideo
                  else SleepFinal)\<rparr>))
      | SleepVoice \<Rightarrow>
          let tbl1 = store_item tbl job_id ''progress'' (PInt 60);
              tbl2 = store_item tbl1 job_id ''current_step''
                       (PStr ''Generating voice using AI model'')
          in (case create_real_voice (gt_user_id t) epoch io_error of
                Inl msg \<Rightarrow> (generation_failed tbl2 job_id msg, None)
              | Inr voice_file \<Rightarrow>
                  let tbl3 = store_item tbl2 job_id ''voice_file'' (PStr voice_file);
                      tbl4 = store_item tbl3 job_id ''voice_duration'' (PStr ''0.2 minutes'')
                  in (tbl4, Some (t\<lparr>gt_pc :=
                        (if wants_video t then SleepVideo else SleepFinal)\<rparr>)))
      | SleepVideo \<Rightarrow>
          let tbl1 = store_item tbl job_id ''progress'' (PInt 85);
              tbl2 = store_item tbl1 job_id ''current_step''
                       (PStr ''Rendering video with avatar animation'')
          in (case create_real_instagram_reel (gt_user_id t) epoch io_error of
                Inl msg \<Rightarrow> (generation_failed tbl2 job_id msg, None)
              | Inr video_file \<Rightarrow>
                  let tbl3 = store_item tbl2 job_id ''video_file'' (PStr video_file);
                      tbl4 = store_item tbl3 job_id ''video_duration'' (PStr ''0.2 minutes'');
                      tbl5 = store_item tbl4 job_id ''video_resolution'' (PStr ''1080x1920'')
                  in (tbl5, Some (t\<lparr>gt_pc := SleepFinal\<rparr>)))
      | SleepFinal \<Rightarrow>
          let tbl1 = store_item tbl job_id ''progress'' (PInt 100);
              tbl2 = store_item tbl1 job_id ''status'' (PStr ''completed'');
              tbl3 = store_item tbl2 job_id ''completed_at'' (PDateTime now);
              tbl4 = store_item tbl3 job_id ''current_step''
                       (PStr ''Content generation completed successfully'')
          in (tbl4, None))"

subsection \<open>get_generation_status\<close>

definition get_generation_status :: "content_backend \<Rightarrow> string \<Rightarrow> content_backend \<times> pyval" where
  "get_generation_status cb job_id =
     (case generation_jobs cb job_id of
        None \<Rightarrow> (cb, PNone)
      | Some job0 \<Rightarrow>
          if \<not> truthy (PDict job0) then (cb, PNone)
          else
            let job = Stored job_id;
                result = copy_dict (generation_jobs cb) job;
                (tbl1, result1) = isoformat_item (generation_jobs cb) result ''created_at'';
                (tbl2, result2) = isoformat_item tbl1 result1 ''completed_at''
            in (cb\<lparr>generation_jobs := tbl2\<rparr>, PDict (deref tbl2 result2)))"

subsection \<open>Tasks interleaved on the event loop\<close>

text \<open>
  The events are: a call of \<open>generate_content\<close> (with a fresh id, as \<open>uuid.uuid4()\<close>
  draws it), the end of the sleep a task waits in, and a status query.
\<close>

record content_sys =
  cbackend :: content_backend
  gen_tasks :: "string \<rightharpoonup> gen_task"

datatype content_event =
    CallGenerateContent string string string string "string option" "string option" string nat
  | ResumeGeneration string "string option" nat string
  | CallGetGenerationStatus string

fun content_step :: "content_sys \<Rightarrow> content_event \<Rightarrow> content_sys" where
  "content_step s (CallGenerateContent job_id user_id script content_type voice_model_id
                     avatar_model_id now minutes) =
     (if generation_jobs (cbackend s) job_id \<noteq> None then s
      else
        s\<lparr>cbackend := fst (generate_content (cbackend s) job_id user_id script content_type now minutes),
          gen_tasks := (gen_tasks s)(job_id \<mapsto>
            \<lparr>gt_user_id = user_id, gt_script = script, gt_content_type = content_type,
             gt_voice_model_id = voice_model_id, gt_avatar_model_id = avatar_model_id,
             gt_pc = SleepScript\<rparr>)\<rparr>)"
| "content_step s (ResumeGeneration job_id io_error epoch now) =
     (case gen_tasks s job_id of
        None \<Rightarrow> s
      | Some t \<Rightarrow>
          (case generate_real_content_resume (generation_jobs (cbackend s)) job_id t io_error epoch now of
             (tbl, t') \<Rightarrow>
               s\<lparr>cbackend := (cbackend s)\<lparr>generation_jobs := tbl\<rparr>,
                 gen_tasks := (gen_tasks s)(job_id := t')\<rparr>))"
| "content_step s (CallGetGenerationStatus job_id) =
     s\<lparr>cbackend := fst (get_generation_status (cbackend s) job_id)\<rparr>"

definition content_run :: "content_sys \<Rightarrow> content_event list \<Rightarrow> content_sys" where
  "content_run s evs = foldl content_step s evs"

fun content_polls :: "content_sys \<Rightarrow> content_event list \<Rightarrow> string \<Rightarrow> pyval list" where
  "content_polls s [] j = []"
| "content_polls s (ev # evs) j =
     (case ev of
        CallGetGenerationStatus j' \<Rightarrow>
          if j' = j then [snd (get_generation_status (cbackend s) j)] else []
      | _ \<Rightarrow> [])
     @ content_polls (content_step s ev) evs j"

definition content_sys_init :: content_sys where
  "content_sys_init = \<lparr>cbackend = content_backend_init, gen_tasks = Map.empty\<rparr>"

text \<open>
  The progress values that a list of status responses shows while the status is
  \<open>processing\<close>.
\<close>

fun processing_progress :: "pyval list \<Rightarrow> int list" where
  "processing_progress [] = []"
| "processing_progress (p # ps) =
     (if field p ''status'' = Some (PStr ''processing'') then
        (case field p ''progress'' of Some (PInt n) \<Rightarrow> [n] | _ \<Rightarrow> [])
      else [])
     @ processing_progress ps"

section \<open>Publishing backend (publishing_backend.py)\<close>

record publishing_backend =
  publishing_jobs :: job_table
  scheduled_posts :: job_table
  platform_status :: "string \<rightharpoonup> pydict"
  platform_optimizations :: "string \<rightharpoonup> pydict"

definition publishing_backend_init :: publishing_backend where
  "publishing_backend_init =
     \<lparr>publishing_jobs = Map.empty,
      scheduled_posts = Map.empty,
      platform_status =
        [''instagram'' \<mapsto> dict_lit [(''connected'', PBool False), (''last_check'', PNone)],
         ''facebook'' \<mapsto> dict_lit [(''connected'', PBool False), (''last_check'', PNone)],
         ''linkedin'' \<mapsto> dict_lit [(''connected'', PBool False), (''last_check'', PNone)],
         ''twitter'' \<mapsto> dict_lit [(''connected'', PBool False), (''last_check'', PNone)]],
      platform_optimizations =
        [''instagram'' \<mapsto> dict_lit
           [(''max_caption_length'', PInt 2200),
            (''hashtag_limit'', PInt 30),
            (''image_ratios'', PList [PStr ''1:1'', PStr ''4:5'', PStr ''9:16'']),
            (''video_max_duration'', PInt 60),
            (''supported_formats'',
               PList [PStr ''jpg'', PStr ''jpeg'', PStr ''png'', PStr ''mp4'', PStr ''mov''])],
         ''facebook'' \<mapsto> dict_lit
           [(''max_text_length'', PInt 63206),
            (''image_ratios'', PList [PStr ''1:1'', PStr ''16:9'', PStr ''4:5'']),
            (''video_max_duration'', PInt 240),
            (''supported_formats'',
               PList [PStr ''jpg'', PStr ''jpeg'', PStr ''png'', PStr ''gif'', PStr ''mp4'',
                      PStr ''mov''])],
         ''linkedin'' \<mapsto> dict_lit
           [(''max_text_length'', PInt 3000),
            (''image_ratios'', PList [PStr ''1:1'', PStr ''16:9'']),
            (''video_max_duration'', PInt 600),
            (''supported_formats'',
               PList [PStr ''jpg'', PStr ''jpeg'', PStr ''png'', PStr ''mp4'', PStr ''mov''])],
         ''twitter'' \<mapsto> dict_lit
           [(''max_text_length'', PInt 280),
            (''image_ratios'', PList [PStr ''16:9'', PStr ''1:1'']),
            (''video_max_duration'', PInt 140),
            (''supported_formats'',
               PList [PStr ''jpg'', PStr ''jpeg'', PStr ''png'', PStr ''gif'', PStr ''mp4'',
                      PStr ''mov''])]]\<rparr>"

subsection \<open>Content optimization\<close>

text \<open>
  \<open>_optimize_content_for_platforms\<close> raises \<open>KeyError\<close> on a platform without rules and
  \<open>TypeError\<close> on a text or hashtag value that cannot be measured, cut or extended; the
  exception is \<open>Inl\<close> with its text (the texts of the type errors are abbreviated).
  \<open>py_slice_to v n\<close> is \<open>v[:n]\<close>.
\<close>

definition py_slice_to :: "pyval \<Rightarrow> int \<Rightarrow> pyval option" where
  "py_slice_to v n =
     (case v of
        PStr s \<Rightarrow> Some (PStr (take (nat (if n < 0 then int (length s) + n else n)) s))
      | PList xs \<Rightarrow> Some (PList (take (nat (if n < 0 then int (length xs) + n else n)) xs))
      | _ \<Rightarrow> None)"

definition limit_of :: "pydict \<Rightarrow> string \<Rightarrow> int \<Rightarrow> int option" where
  "limit_of rules k dflt = (case get_or rules k (PInt dflt) of PInt m \<Rightarrow> Some m | _ \<Rightarrow> None)"

definition optimize_text :: "pydict \<Rightarrow> pyval \<Rightarrow> string + pyval" where
  "optimize_text rules text =
     (case (py_len text, limit_of rules ''max_text_length'' 1000) of
        (Some n, Some max_length) \<Rightarrow>
          if int n > max_length then
            (case py_slice_to text (max_length - 3) of
               Some (PStr s) \<Rightarrow> Inr (PStr (s @ ''...''))
             | _ \<Rightarrow> Inl ''TypeError'')
          else Inr text
      | _ \<Rightarrow> Inl ''TypeError'')"

definition optimize_hashtags :: "pydict \<Rightarrow> pyval \<Rightarrow> string + pyval" where
  "optimize_hashtags rules hashtags =
     (case (py_len hashtags, limit_of rules ''hashtag_limit'' 30) of
        (Some n, Some hashtag_limit) \<Rightarrow>
          if int n > hashtag_limit then
            (case py_slice_to hashtags hashtag_limit of
               Some v \<Rightarrow> Inr v
             | None \<Rightarrow> Inl ''TypeError'')
          else Inr hashtags
      | _ \<Rightarrow> Inl ''TypeError'')"

fun optimize_content_for_platforms ::
  "(string \<rightharpoonup> pydict) \<Rightarrow> pydict \<Rightarrow> pydict \<Rightarrow> string list \<Rightarrow> string + pydict" where
  "optimize_content_for_platforms opts content optimized [] = Inr optimized"
| "optimize_content_for_platforms opts content optimized (platform # platforms) =
     (case opts platform of
        None \<Rightarrow> Inl ([CHR 0x27] @ platform @ [CHR 0x27])
      | Some platform_rules \<Rightarrow>
          (case (case dget content ''text'' of
                   None \<Rightarrow> Inr optimized
                 | Some text \<Rightarrow>
                     (case optimize_text platform_rules text of
                        Inl e \<Rightarrow> Inl e
                      | Inr t \<Rightarrow> Inr (dset (platform @ ''_text'') t optimized))) of
             Inl e \<Rightarrow> Inl e
           | Inr optimized1 \<Rightarrow>
               (case (case dget content ''hashtags'' of
                        None \<Rightarrow> Inr optimized1
                      | Some hashtags \<Rightarrow>
                          (case optimize_hashtags platform_rules hashtags of
                             Inl e \<Rightarrow> Inl e
                           | Inr h \<Rightarrow> Inr (dset (platform @ ''_hashtags'') h optimized1))) of
                  Inl e \<Rightarrow> Inl e
                | Inr optimized2 \<Rightarrow>
                    optimize_content_for_platforms opts content
                      (dset (platform @ ''_optimized'') (PBool True) optimized2) platforms)))"

definition error_response :: "string \<Rightarrow> pyval" where
  "error_response e = PDict (dict_lit [(''status'', PStr ''error''), (''error'', PStr e)])"

subsection \<open>publish_immediately and schedule_post\<close>

text \<open>
  Both store a record and start a task; neither suspends after the record is stored.
  \<open>parsed_time\<close> is what \<open>datetime.fromisoformat(schedule_time.replace('Z', '+00:00'))\<close>
  gives: an error, a time without zone or a time with zone, each time with its instant
  in seconds and its \<open>isoformat()\<close>.
\<close>

datatype parsed_time = BadTime string | NaiveTime nat string | AwareTime nat string

definition publish_immediately ::
  "publishing_backend \<Rightarrow> string \<Rightarrow> string \<Rightarrow> pydict \<Rightarrow> string list \<Rightarrow> string
     \<Rightarrow> publishing_backend \<times> pyval" where
  "publish_immediately pb post_id user_id content platforms now =
     (case optimize_content_for_platforms (platform_optimizations pb) content content platforms of
        Inl e \<Rightarrow> (pb, error_response e)
      | Inr optimized_content \<Rightarrow>
          (pb\<lparr>publishing_jobs := (publishing_jobs pb)(post_id \<mapsto> dict_lit
              [(''post_id'', PStr post_id),
               (''user_id'', PStr user_id),
               (''content'', PDict optimized_content),
               (''platforms'', PList (map PStr platforms)),
               (''status'', PStr ''publishing''),
               (''created_at'', PDateTime now),
               (''results'', PDict [])])\<rparr>,
           PDict (dict_lit
              [(''status'', PStr ''publishing''),
               (''post_id'', PStr post_id),
               (''platforms'', PList (map PStr platforms)),
               (''estimated_time'', PStr (string_of_nat (length platforms * 2) @ '' minutes''))])))"

definition schedule_post ::
  "publishing_backend \<Rightarrow> string \<Rightarrow> string \<Rightarrow> pydict \<Rightarrow> string list \<Rightarrow> parsed_time \<Rightarrow> string
     \<Rightarrow> publishing_backend \<times> pyval" where
  "schedule_post pb post_id user_id content platforms schedule_datetime now =
     (case schedule_datetime of
        BadTime e \<Rightarrow> (pb, error_response e)
      | _ \<Rightarrow>
          (case optimize_content_for_platforms (platform_optimizations pb) content content platforms of
             Inl e \<Rightarrow> (pb, error_response e)
           | Inr optimized_content \<Rightarrow>
               let iso_text = (case schedule_datetime of
                            NaiveTime t i \<Rightarrow> i | AwareTime t i \<Rightarrow> i | BadTime e \<Rightarrow> [])
               in (pb\<lparr>scheduled_posts := (scheduled_posts pb)(post_id \<mapsto> dict_lit
                     [(''post_id'', PStr post_id),
                      (''user_id'', PStr user_id),
                      (''content'', PDict optimized_content),
                      (''platforms'', PList (map PStr platforms)),
                      (''schedule_time'', PStr iso_text),
                      (''status'', PStr ''scheduled''),
                      (''created_at'', PStr now),
                      (''optimizations'', PDict [])])\<rparr>,
                   PDict (dict_lit
                     [(''status'', PStr ''success''),
                      (''post_id'', PStr post_id),
                      (''schedule_time'', PStr iso_text),
                      (''platforms'', PList (map PStr platforms)),
                      (''optimized_content'', PDict optimized_content)]))))"

subsection \<open>cancel_scheduled_post and get_publishing_status\<close>

definition cancel_scheduled_post ::
  "publishing_backend \<Rightarrow> string \<Rightarrow> publishing_backend \<times> pyval" where
  "cancel_scheduled_post pb post_id =
     (if scheduled_posts pb post_id \<noteq> None then
        (pb\<lparr>scheduled_posts := store_item (scheduled_posts pb) post_id ''status'' (PStr ''cancelled'')\<rparr>,
         PDict (dict_lit
           [(''status'', PStr ''success''), (''message'', PStr ''Post cancelled successfully'')]))
      else
        (pb, PDict (dict_lit
           [(''status'', PStr ''error''), (''message'', PStr ''Post not found'')])))"

text \<open>
  \<open>self.publishing_jobs.get(post_id) or self.scheduled_posts.get(post_id)\<close>: the table
  whose entry the expression yields (\<open>True\<close> for \<open>publishing_jobs\<close>), or \<open>None\<close> when
  the value is falsy.
\<close>

definition find_job :: "publishing_backend \<Rightarrow> string \<Rightarrow> bool option" where
  "find_job pb post_id =
     (case publishing_jobs pb post_id of
        Some d \<Rightarrow>
          if truthy (PDict d) then Some True
          else (case scheduled_posts pb post_id of
                  Some d' \<Rightarrow> if truthy (PDict d') then Some False else None
                | None \<Rightarrow> None)
      | None \<Rightarrow>
          (case scheduled_posts pb post_id of
             Some d' \<Rightarrow> if truthy (PDict d') then Some False else None
           | None \<Rightarrow> None))"

definition job_table_of :: "publishing_backend \<Rightarrow> bool \<Rightarrow> job_table" where
  "job_table_of pb in_jobs = (if in_jobs then publishing_jobs pb else scheduled_posts pb)"

definition put_job_table :: "publishing_backend \<Rightarrow> bool \<Rightarrow> job_table \<Rightarrow> publishing_backend" where
  "put_job_table pb in_jobs tbl =
     (if in_jobs then pb\<lparr>publishing_jobs := tbl\<rparr> else pb\<lparr>scheduled_posts := tbl\<rparr>)"

definition get_publishing_status ::
  "publishing_backend \<Rightarrow> string \<Rightarrow> publishing_backend \<times> pyval" where
  "get_publishing_status pb post_id =
     (case find_job pb post_id of
        None \<Rightarrow> (pb, PNone)
      | Some in_jobs \<Rightarrow>
          let job = Stored post_id;
              result = copy_dict (job_table_of pb in_jobs) job;
              (tbl1, result1) = isoformat_item (job_table_of pb in_jobs) result ''created_at'';
              (tbl2, result2) = isoformat_item tbl1 result1 ''completed_at''
          in (put_job_table pb in_jobs tbl2, PDict (deref tbl2 result2)))"

subsection \<open>The publishing tasks\<close>

text \<open>
  \<open>_execute_scheduled_post\<close> suspends in the sleep until the post is due and then runs
  \<open>_publish_to_platforms\<close>, which suspends in \<open>_publish_to_platform\<close> (its sleep) and
  in the sleep after each platform. A suspended task keeps the table its \<open>job\<close> was
  found in, the platforms still to publish and the local \<open>results\<close>. \<open>StartExecute\<close>
  and \<open>StartPublish\<close> are tasks created and not yet run.
  \<open>_publish_to_platform\<close> catches its own exceptions and the platforms are a list of
  strings, so nothing reaches the \<open>except\<close> clauses of \<open>_publish_to_platforms\<close>
  (lines 265-270 and 279-283), which have no branch here.
\<close>

datatype pub_pc =
    StartExecute parsed_time
  | SleepUntilDue
  | StartPublish
  | InPlatform bool string "string list" pydict
  | AfterPlatform bool "string list" pydict

record publish_env =
  pe_instant :: nat
  pe_epoch :: nat
  pe_now :: string
  pe_likes :: nat
  pe_shares :: nat
  pe_comments :: nat

definition publish_to_platform :: "string \<Rightarrow> string \<Rightarrow> publish_env \<Rightarrow> pyval" where
  "publish_to_platform platform post_id env =
     (let platform_post_id = platform @ ''_'' @ post_id @ ''_'' @ string_of_nat (pe_epoch env)
      in PDict (dict_lit
           [(''status'', PStr ''success''),
            (''platform'', PStr platform),
            (''platform_post_id'', PStr platform_post_id),
            (''published_at'', PStr (pe_now env)),
            (''url'', PStr (''https://'' @ platform @ ''.com/posts/'' @ platform_post_id)),
            (''metrics'', PDict (dict_lit
               [(''likes'', PInt (int (pe_likes env))),
                (''shares'', PInt (int (pe_shares env))),
                (''comments'', PInt (int (pe_comments env)))]))]))"

fun platform_names :: "pyval \<Rightarrow> string list" where
  "platform_names (PList xs) = concat (map (\<lambda>v. case v of PStr s \<Rightarrow> [s] | _ \<Rightarrow> []) xs)"
| "platform_names v = []"

text \<open>The three assignments under "Update job status" (lines 272-275).\<close>

definition complete_job ::
  "publishing_backend \<Rightarrow> bool \<Rightarrow> string \<Rightarrow> pydict \<Rightarrow> string \<Rightarrow> publishing_backend" where
  "complete_job pb in_jobs post_id results now =
     put_job_table pb in_jobs
       (store_item
         (store_item
           (store_item (job_table_of pb in_jobs) post_id ''status'' (PStr ''completed''))
           post_id ''results'' (PDict results))
         post_id ''completed_at'' (PStr now))"

text \<open>Entering the loop over the platforms, or leaving it when none is left.\<close>

definition next_platform ::
  "publishing_backend \<Rightarrow> bool \<Rightarrow> string \<Rightarrow> string list \<Rightarrow> pydict \<Rightarrow> string
     \<Rightarrow> publishing_backend \<times> pub_pc option" where
  "next_platform pb in_jobs post_id platforms results now =
     (case platforms of
        [] \<Rightarrow> (complete_job pb in_jobs post_id results now, None)
      | platform # rest \<Rightarrow> (pb, Some (InPlatform in_jobs platform rest results)))"

definition publish_to_platforms_start ::
  "publishing_backend \<Rightarrow> string \<Rightarrow> string \<Rightarrow> publishing_backend \<times> pub_pc option" where
  "publish_to_platforms_start pb post_id now =
     (case find_job pb post_id of
        None \<Rightarrow> (pb, None)
      | Some in_jobs \<Rightarrow>
          next_platform pb in_jobs post_id
            (platform_names (get_or (deref (job_table_of pb in_jobs) (Stored post_id)) ''platforms'' PNone))
            [] now)"

text \<open>The \<open>except\<close> handler of \<open>_execute_scheduled_post\<close> (lines 239-243).\<close>

definition execute_failed :: "publishing_backend \<Rightarrow> string \<Rightarrow> string \<Rightarrow> publishing_backend" where
  "execute_failed pb post_id e =
     (if scheduled_posts pb post_id \<noteq> None then
        pb\<lparr>scheduled_posts :=
             store_item (store_item (scheduled_posts pb) post_id ''status'' (PStr ''failed''))
               post_id ''error'' (PStr e)\<rparr>
      else pb)"

text \<open>
  One atomic piece of a publishing task. Comparing a time without zone with
  \<open>datetime.now(timezone.utc)\<close> raises \<open>TypeError\<close>.
\<close>

definition publishing_resume ::
  "publishing_backend \<Rightarrow> string \<Rightarrow> pub_pc \<Rightarrow> publish_env \<Rightarrow> publishing_backend \<times> pub_pc option" where
  "publishing_resume pb post_id pc env =
     (case pc of
        StartExecute schedule_time \<Rightarrow>
          (case schedule_time of
             AwareTime t i \<Rightarrow>
               if t > pe_instant env then (pb, Some SleepUntilDue)
               else publish_to_platforms_start pb post_id (pe_now env)
           | NaiveTime t i \<Rightarrow>
               (execute_failed pb post_id
                  ''can't compare offset-naive and offset-aware datetimes'', None)
           | BadTime e \<Rightarrow> (execute_failed pb post_id e, None))
      | SleepUntilDue \<Rightarrow> publish_to_platforms_start pb post_id (pe_now env)
      | StartPublish \<Rightarrow> publish_to_platforms_start pb post_id (pe_now env)
      | InPlatform in_jobs platform rest results \<Rightarrow>
          (pb, Some (AfterPlatform in_jobs rest
                       (dset platform (publish_to_platform platform post_id env) results)))
      | AfterPlatform in_jobs rest results \<Rightarrow>
          next_platform pb in_jobs post_id rest results (pe_now env))"

subsection \<open>Publishing tasks interleaved on the event loop\<close>

record publishing_sys =
  pbackend :: publishing_backend
  pub_tasks :: "string \<rightharpoonup> pub_pc"

datatype publishing_event =
    CallPublishImmediately string string pydict "string list" string
  | CallSchedulePost string string pydict "string list" parsed_time string
  | ResumePublishing string publish_env
  | CallCancelScheduledPost string
  | CallGetPublishingStatus string

definition known_post :: "publishing_backend \<Rightarrow> string \<Rightarrow> bool" where
  "known_post pb post_id = (publishing_jobs pb post_id \<noteq> None \<or> scheduled_posts pb post_id \<noteq> None)"

fun publishing_step :: "publishing_sys \<Rightarrow> publishing_event \<Rightarrow> publishing_sys" where
  "publishing_step s (CallPublishImmediately post_id user_id content platforms now) =
     (if known_post (pbackend s) post_id then s
      else
        (case publish_immediately (pbackend s) post_id user_id content platforms now of
           (pb, response) \<Rightarrow>
             if publishing_jobs pb post_id \<noteq> None
             then s\<lparr>pbackend := pb, pub_tasks := (pub_tasks s)(post_id \<mapsto> StartPublish)\<rparr>
             else s\<lparr>pbackend := pb\<rparr>))"
| "publishing_step s (CallSchedulePost post_id user_id content platforms schedule_time now) =
     (if known_post (pbackend s) post_id then s
      else
        (case schedule_post (pbackend s) post_id user_id content platforms schedule_time now of
           (pb, response) \<Rightarrow>
             if scheduled_posts pb post_id \<noteq> None
             then s\<lparr>pbackend := pb,
                    pub_tasks := (pub_tasks s)(post_id \<mapsto> StartExecute schedule_time)\<rparr>
             else s\<lparr>pbackend := pb\<rparr>))"
| "publishing_step s (ResumePublishing post_id env) =
     (case pub_tasks s post_id of
        None \<Rightarrow> s
      | Some pc \<Rightarrow>
          (case publishing_resume (pbackend s) post_id pc env of
             (pb, pc') \<Rightarrow> s\<lparr>pbackend := pb, pub_tasks := (pub_tasks s)(post_id := pc')\<rparr>))"
| "publishing_step s (CallCancelScheduledPost post_id) =
     s\<lparr>pbackend := fst (cancel_scheduled_post (pbackend s) post_id)\<rparr>"
| "publishing_step s (CallGetPublishingStatus post_id) =
     s\<lparr>pbackend := fst (get_publishing_status (pbackend s) post_id)\<rparr>"

definition publishing_run :: "publishing_sys \<Rightarrow> publishing_event list \<Rightarrow> publishing_sys" where
  "publishing_run s evs = foldl publishing_step s evs"

fun publishing_polls :: "publishing_sys \<Rightarrow> publishing_event list \<Rightarrow> string \<Rightarrow> pyval list" where
  "publishing_polls s [] j = []"
| "publishing_polls s (ev # evs) j =
     (case ev of
        CallGetPublishingStatus j' \<Rightarrow>
          if j' = j then [snd (get_publishing_status (pbackend s) j)] else []
      | _ \<Rightarrow> [])
     @ publishing_polls (publishing_step s ev) evs j"

definition publishing_sys_init :: publishing_sys where
  "publishing_sys_init = \<lparr>pbackend = publishing_backend_init, pub_tasks = Map.empty\<rparr>"

section \<open>Notions used in the properties\<close>

text \<open>The \<open>status\<close> fields of a list of status responses.\<close>

definition poll_statuses :: "pyval list \<Rightarrow> pyval option list" where
  "poll_statuses ps = map (\<lambda>p. field p ''status'') ps"


text \<open>The progress value that the task writes when it leaves each of its sleeps.\<close>

fun stage_progress :: "gen_pc \<Rightarrow> int" where
  "stage_progress SleepScript = 20"
| "stage_progress SleepVoice = 60"
| "stage_progress SleepVideo = 85"
| "stage_progress SleepFinal = 100"

text \<open>
  The formula of the specification, \<open>round(100 * (i+1) / total_stages)\<close>, with Python's
  rounding of a tie to the even neighbour.
\<close>

definition py_round_div :: "int \<Rightarrow> int \<Rightarrow> int" where
  "py_round_div n d =
     (let q = n div d; r = n mod d
      in if 2 * r < d then q
         else if 2 * r > d then q + 1
         else if even q then q else q + 1)"

definition spec_progress :: "nat \<Rightarrow> nat \<Rightarrow> int" where
  "spec_progress i total_stages = py_round_div (100 * (int i + 1)) (int total_stages)"

text \<open>A stored job and one of its fields, by table and id.\<close>

definition job_field :: "job_table \<Rightarrow> string \<Rightarrow> string \<Rightarrow> pyval option" where
  "job_field tbl j k = (case tbl j of None \<Rightarrow> None | Some d \<Rightarrow> dget d k)"

text \<open>The keys of a dictionary-valued field, and the platforms a task has still to publish.\<close>

definition dict_keys :: "pyval option \<Rightarrow> string list" where
  "dict_keys v = (case v of Some (PDict d) \<Rightarrow> map fst d | _ \<Rightarrow> [])"

fun pending_platforms :: "pub_pc option \<Rightarrow> string list" where
  "pending_platforms (Some (InPlatform in_jobs platform rest results)) = platform # rest"
| "pending_platforms (Some (AfterPlatform in_jobs rest results)) = rest"
| "pending_platforms pc = []"

subsection \<open>Two schedules with a cancellation\<close>

text \<open>
  \<open>env_at n\<close> is the environment of a resumed task at second \<open>n\<close>. In
  \<open>cancel_before_due\<close> a post is scheduled for second 1000 and cancelled while its task
  sleeps; the task then wakes up and publishes. In \<open>cancel_between_platforms\<close> a post
  for two platforms is due at once and is cancelled after the first platform.
\<close>

definition env_at :: "nat \<Rightarrow> publish_env" where
  "env_at n = \<lparr>pe_instant = n, pe_epoch = n, pe_now = string_of_nat n,
               pe_likes = 0, pe_shares = 0, pe_comments = 0\<rparr>"

definition cancel_before_due :: "publishing_event list" where
  "cancel_before_due =
     [CallSchedulePost ''p1'' ''u1'' [] [''instagram'']
        (AwareTime 1000 ''2030-01-01T00:00:00+00:00'') ''2029-12-31T00:00:00+00:00'',
      ResumePublishing ''p1'' (env_at 0),
      CallCancelScheduledPost ''p1'',
      CallGetPublishingStatus ''p1'',
      ResumePublishing ''p1'' (env_at 1000),
      ResumePublishing ''p1'' (env_at 1005),
      ResumePublishing ''p1'' (env_at 1008),
      CallGetPublishingStatus ''p1'',
      CallCancelScheduledPost ''p1'',
      CallGetPublishingStatus ''p1'']"

definition publish_first_platform :: "publishing_event list" where
  "publish_first_platform =
     [CallSchedulePost ''p1'' ''u1'' [] [''instagram'', ''twitter'']
        (AwareTime 100 ''2030-01-01T00:00:00+00:00'') ''2029-12-31T00:00:00+00:00'',
      ResumePublishing ''p1'' (env_at 200),
      ResumePublishing ''p1'' (env_at 205)]"

definition cancel_between_platforms :: "publishing_event list" where
  "cancel_between_platforms =
     publish_first_platform @
     [CallCancelScheduledPost ''p1'',
      ResumePublishing ''p1'' (env_at 208),
      ResumePublishing ''p1'' (env_at 213),
      ResumePublishing ''p1'' (env_at 216)]"

subsection \<open>Invariants of the job tables\<close>

text \<open>
  The facts that hold of a job and of the task or call that works on it, in every state
  the event loop can reach. \<open>opt_field\<close> reads a field of a table entry that may be
  missing.
\<close>

definition opt_field :: "pydict option \<Rightarrow> string \<Rightarrow> pyval option" where
  "opt_field jo k = (case jo of None \<Rightarrow> None | Some d \<Rightarrow> dget d k)"

definition gen_ok :: "gen_task option \<Rightarrow> pydict option \<Rightarrow> bool" where
  "gen_ok topt jo =
     (case topt of
        Some t \<Rightarrow>
          opt_field jo ''status'' = Some (PStr ''processing'')
          \<and> opt_field jo ''error'' = None
          \<and> (gt_pc t \<noteq> SleepFinal \<longrightarrow> opt_field jo ''video_file'' = None)
          \<and> (\<exists>p. opt_field jo ''progress'' = Some (PInt p) \<and> 0 \<le> p \<and> p < stage_progress (gt_pc t))
      | None \<Rightarrow>
          opt_field jo ''status'' \<noteq> Some (PStr ''processing'')
          \<and> (opt_field jo ''status'' = Some (PStr ''completed'') \<longrightarrow> opt_field jo ''error'' = None)
          \<and> (opt_field jo ''status'' = Some (PStr ''failed'')
               \<longrightarrow> opt_field jo ''video_file'' = None \<and> opt_field jo ''error'' \<noteq> None))"

definition progress_floor :: "pydict option \<Rightarrow> int" where
  "progress_floor jo =
     (if opt_field jo ''status'' = Some (PStr ''processing'')
      then (case opt_field jo ''progress'' of Some (PInt p) \<Rightarrow> p | _ \<Rightarrow> 0)
      else 0)"

definition job_finished :: "'t option \<Rightarrow> pydict option \<Rightarrow> bool" where
  "job_finished topt jo =
     (jo \<noteq> None \<and> topt = None \<and> opt_field jo ''status'' \<noteq> Some (PStr ''processing''))"

definition observed :: "pydict option \<Rightarrow> int list" where
  "observed jo =
     (if opt_field jo ''status'' = Some (PStr ''processing'')
      then (case opt_field jo ''progress'' of Some (PInt n) \<Rightarrow> [n] | _ \<Rightarrow> [])
      else [])"

definition voice_ok :: "voice_call option \<Rightarrow> pydict option \<Rightarrow> bool" where
  "voice_ok copt jo =
     (case copt of
        Some c \<Rightarrow>
          opt_field jo ''status'' = Some (PStr ''processing'')
          \<and> opt_field jo ''progress'' = Some (PInt 0)
          \<and> opt_field jo ''error'' = None
          \<and> opt_field jo ''audio_url'' = None
      | None \<Rightarrow>
          opt_field jo ''status'' \<noteq> Some (PStr ''processing'')
          \<and> (opt_field jo ''status'' = Some (PStr ''completed'')
               \<longrightarrow> opt_field jo ''error'' = None
                 \<and> (\<exists>u. opt_field jo ''audio_url'' = Some (PStr u)))
          \<and> (opt_field jo ''status'' = Some (PStr ''failed'')
               \<longrightarrow> opt_field jo ''audio_url'' = None \<and> opt_field jo ''error'' \<noteq> None))"




subsection \<open>Example runs\<close>






section \<open>Properties of the voice backend\<close>

lemma generate_voice_begin_cases:
  "generate_voice_begin vb job_id text voice_id provider user_id quality now = (vb', None) \<Longrightarrow>
     voice_jobs vb' = (voice_jobs vb)(job_id \<mapsto> dict_lit
        [(''job_id'', PStr job_id), (''text'', text), (''voice_id'', PStr voice_id),
         (''provider'', PStr provider), (''user_id'', opt_str user_id),
         (''quality'', PStr quality), (''status'', PStr ''processing''),
         (''created_at'', PStr now), (''progress'', PInt 0)])
     \<and> providers vb' = providers vb \<and> user_voices vb' = user_voices vb"
  by (auto simp: generate_voice_begin_def split: option.splits if_splits)

lemma generate_voice_begin_returned:
  "generate_voice_begin vb job_id text voice_id provider user_id quality now = (vb', Some r) \<Longrightarrow>
     vb' = vb"
  by (auto simp: generate_voice_begin_def split: option.splits if_splits)

lemma generate_voice_begin_enabled:
  "providers vb provider = Some cfg \<Longrightarrow> dget cfg ''enabled'' = Some en \<Longrightarrow> truthy en \<Longrightarrow>
     snd (generate_voice_begin vb job_id text voice_id provider user_id quality now) = None"
  by (simp add: generate_voice_begin_def)

lemma voice_jobs_append_user_voice [simp]:
  "voice_jobs (append_user_voice vb u e) = voice_jobs vb"
  by (simp add: append_user_voice_def)

lemma generate_voice_finish_jobs:
  "voice_jobs vb job_id = Some job0 \<Longrightarrow>
     voice_jobs (fst (generate_voice_finish vb job_id voice_id provider user_id result now)) =
       (voice_jobs vb)(job_id \<mapsto> update_job_status job0 result now)"
  by (simp add: generate_voice_finish_def Let_def split: option.splits)

lemma generate_voice_finish_other:
  "j \<noteq> job_id \<Longrightarrow>
     voice_jobs (fst (generate_voice_finish vb job_id voice_id provider user_id result now)) j =
       voice_jobs vb j"
  by (simp add: generate_voice_finish_def Let_def split: option.splits)

lemma generate_voice_finish_response:
  "voice_jobs vb job_id = Some job0 \<Longrightarrow>
     field (snd (generate_voice_finish vb job_id voice_id provider user_id result now)) ''status''
       = Some (get_or (update_job_status job0 result now) ''status'' PNone)"
  by (simp add: generate_voice_finish_def Let_def field_def dict_lit_def)

lemma update_job_status_status:
  "dget (update_job_status job result now) ''status'' =
     Some (PStr (if dget result ''status'' = Some (PStr ''success'') then ''completed'' else ''failed''))"
  by (simp add: update_job_status_def)

lemma update_job_status_terminal:
  "terminal_voice_status (dget (update_job_status job result now) ''status'')"
  by (simp add: update_job_status_status terminal_voice_status_def)

lemma voice_step_frozen:
  assumes "voice_jobs (backend s) j = Some job" "pending s j = None"
  shows "voice_jobs (backend (voice_step s ev)) j = Some job \<and> pending (voice_step s ev) j = None"
proof (cases ev)
  case (CallGenerateVoice job_id tx voice_id provider user_id quality nw)
  show ?thesis
  proof (cases "voice_jobs (backend s) job_id \<noteq> None")
    case True
    then show ?thesis using assms CallGenerateVoice by simp
  next
    case False
    then have ne: "job_id \<noteq> j" using assms by auto
    obtain vb r where b: "generate_voice_begin (backend s) job_id tx voice_id provider user_id quality nw = (vb, r)"
      by (cases "generate_voice_begin (backend s) job_id tx voice_id provider user_id quality nw")
    show ?thesis
    proof (cases r)
      case None
      with b have "voice_jobs vb j = voice_jobs (backend s) j"
        using generate_voice_begin_cases [of "backend s" job_id tx voice_id provider user_id quality nw vb] ne
        by simp
      then show ?thesis using assms CallGenerateVoice False b None ne by simp
    next
      case (Some a)
      with b have "vb = backend s" by (simp add: generate_voice_begin_returned)
      then show ?thesis using assms CallGenerateVoice False b Some by simp
    qed
  qed
next
  case (ProviderReturns job_id epoch now)
  show ?thesis
  proof (cases "pending s job_id")
    case None
    then show ?thesis using assms ProviderReturns by simp
  next
    case (Some c)
    then have "job_id \<noteq> j" using assms by auto
    then show ?thesis using assms ProviderReturns Some
      by (simp add: generate_voice_finish_other)
  qed
next
  case (CallGetVoiceStatus job_id)
  then show ?thesis using assms by (simp add: get_voice_status_def split: option.splits)
qed

lemma voice_polls_frozen:
  "voice_jobs (backend s) j = Some job \<Longrightarrow> pending s j = None \<Longrightarrow>
   p \<in> set (voice_polls s evs j) \<Longrightarrow> p = snd (get_voice_status (backend s) j)"
proof (induction evs arbitrary: s)
  case Nil
  then show ?case by simp
next
  case (Cons ev evs)
  have fr: "voice_jobs (backend (voice_step s ev)) j = Some job \<and> pending (voice_step s ev) j = None"
    using Cons.prems(1,2) by (rule voice_step_frozen)
  have same: "snd (get_voice_status (backend (voice_step s ev)) j) = snd (get_voice_status (backend s) j)"
    using fr Cons.prems(1) by (simp add: get_voice_status_def)
  from Cons.prems(3) consider
    (now) "p = snd (get_voice_status (backend s) j)" | (later) "p \<in> set (voice_polls (voice_step s ev) evs j)"
    by (auto split: voice_event.splits if_splits)
  then show ?case
  proof cases
    case now then show ?thesis .
  next
    case later
    then have "p = snd (get_voice_status (backend (voice_step s ev)) j)"
      using Cons.IH fr by blast
    then show ?thesis using same by simp
  qed
qed

lemma get_voice_status_field:
  "voice_jobs vb j = Some job \<Longrightarrow>
     field (snd (get_voice_status vb j)) ''status'' = Some (get_or job ''status'' PNone)"
  by (simp add: get_voice_status_def field_def dict_lit_def)

lemma generate_voice_enabled:
  assumes "providers vb provider = Some cfg" "dget cfg ''enabled'' = Some en" "truthy en"
  shows "\<exists>vb1 job0. voice_jobs vb1 job_id = Some job0 \<and>
     generate_voice vb job_id text voice_id provider user_id quality now epoch now' =
       generate_voice_finish vb1 job_id voice_id provider user_id
            (call_provider provider text voice_id quality epoch) now'"
proof -
  let ?vb1 = "fst (generate_voice_begin vb job_id text voice_id provider user_id quality now)"
  have "voice_jobs ?vb1 job_id \<noteq> None"
    using assms by (simp add: generate_voice_begin_def)
  moreover have "generate_voice vb job_id text voice_id provider user_id quality now epoch now' =
       generate_voice_finish ?vb1 job_id voice_id provider user_id
            (call_provider provider text voice_id quality epoch) now'"
    using assms by (simp add: generate_voice_def generate_voice_begin_def)
  ultimately show ?thesis by blast
qed

lemma elevenlabs_registered:
  "providers (voice_backend_init env) ''elevenlabs'' =
     Some (dict_lit [(''api_key'', getenv_or env ''ELEVENLABS_API_KEY'' ''demo_key''),
                     (''base_url'', PStr ''https://api.elevenlabs.io/v1''),
                     (''enabled'', PBool True)])"
  by (simp add: voice_backend_init_def)

lemma elevenlabs_enabled:
  "dget (dict_lit [(''api_key'', k), (''base_url'', PStr ''https://api.elevenlabs.io/v1''),
                   (''enabled'', PBool True)]) ''enabled'' = Some (PBool True)"
  by (simp add: dict_lit_def)

text \<open>
  Claim C4. A call of \<open>generate_voice\<close> with a provider name that is not in the provider
  table returns, before the first suspension point, the error dictionary
  \<open>{"status": "error", "error": "Unsupported provider: <name>"}\<close>; the response has no
  \<open>job_id\<close>, and the backend (job table included) is exactly what it was.
\<close>

theorem unknown_provider_rejected:
  assumes "providers vb provider = None"
  shows "generate_voice_begin vb job_id text voice_id provider user_id quality now =
           (vb, Some (PDict [(''status'', PStr ''error''),
                             (''error'', PStr (''Unsupported provider: '' @ provider))]))
       \<and> generate_voice vb job_id text voice_id provider user_id quality now epoch now' =
           (vb, PDict [(''status'', PStr ''error''),
                       (''error'', PStr (''Unsupported provider: '' @ provider))])
       \<and> field (snd (generate_voice vb job_id text voice_id provider user_id quality now epoch now'))
            ''job_id'' = None
       \<and> voice_jobs (fst (generate_voice vb job_id text voice_id provider user_id quality now epoch now'))
            = voice_jobs vb"
  using assms
  by (simp add: generate_voice_def generate_voice_begin_def dict_lit_def dset_def field_def dget_def)

theorem unknown_provider_rejected_witness:
  "providers (voice_backend_init Map.empty) ''unknown_provider'' = None
   \<and> generate_voice (voice_backend_init Map.empty) ''j1'' (PStr ''hello world'') ''rachel''
        ''unknown_provider'' None ''high'' ''t0'' 0 ''t1'' =
        (voice_backend_init Map.empty,
         PDict [(''status'', PStr ''error''),
                (''error'', PStr ''Unsupported provider: unknown_provider'')])"
proof -
  have h: "providers (voice_backend_init Map.empty) ''unknown_provider'' = None"
    by (simp add: voice_backend_init_def)
  show ?thesis
    using h unknown_provider_rejected [OF h, of "''j1''" "PStr ''hello world''" "''rachel''"
        None "''high''" "''t0''" 0 "''t1''"]
    by simp
qed

text \<open>
  Claim C9. When \<open>generate_voice\<close> is called with a registered, enabled provider and
  returns, the job stored under its id has status \<open>completed\<close> or \<open>failed\<close>; and
  whatever is scheduled afterwards (the call itself is no longer pending), every
  \<open>get_voice_status\<close> query for that id reports \<open>completed\<close> or \<open>failed\<close>, never
  \<open>processing\<close>.
\<close>

theorem voice_terminal_on_return:
  assumes "providers vb provider = Some cfg" and "dget cfg ''enabled'' = Some en" and "truthy en"
    and "generate_voice vb job_id text voice_id provider user_id quality now epoch now' = (vb', r)"
  shows "\<exists>job. voice_jobs vb' job_id = Some job
           \<and> terminal_voice_status (dget job ''status'')
           \<and> (\<forall>pend evs p. pend job_id = None \<longrightarrow>
                 p \<in> set (voice_polls \<lparr>backend = vb', pending = pend\<rparr> evs job_id) \<longrightarrow>
                 terminal_voice_status (field p ''status'')
                 \<and> field p ''status'' \<noteq> Some (PStr ''processing''))"
proof -
  obtain vb1 job0 where j0: "voice_jobs vb1 job_id = Some job0"
    and g: "generate_voice vb job_id text voice_id provider user_id quality now epoch now' =
       generate_voice_finish vb1 job_id voice_id provider user_id
            (call_provider provider text voice_id quality epoch) now'"
    using generate_voice_enabled [OF assms(1-3)] by blast
  let ?job = "update_job_status job0 (call_provider provider text voice_id quality epoch) now'"
  have st: "voice_jobs vb' job_id = Some ?job"
    using generate_voice_finish_jobs [OF j0, of voice_id provider user_id _ now'] g assms(4)
    by (metis fst_conv fun_upd_same)
  have tm: "terminal_voice_status (dget ?job ''status'')"
    by (rule update_job_status_terminal)
  have polls: "terminal_voice_status (field p ''status'') \<and> field p ''status'' \<noteq> Some (PStr ''processing'')"
    if "pend job_id = None" and "p \<in> set (voice_polls \<lparr>backend = vb', pending = pend\<rparr> evs job_id)"
    for pend evs p
  proof -
    have "p = snd (get_voice_status vb' job_id)"
      using voice_polls_frozen [of "\<lparr>backend = vb', pending = pend\<rparr>" job_id ?job p evs] st that
      by simp
    then have "field p ''status'' = dget ?job ''status''"
      using get_voice_status_field [OF st] by (simp add: update_job_status_status get_or_def)
    then show ?thesis using tm by (auto simp: terminal_voice_status_def)
  qed
  show ?thesis using st tm polls by blast
qed

theorem voice_terminal_on_return_witness:
  "terminal_voice_status
     (dget (the (voice_jobs (fst (generate_voice (voice_backend_init Map.empty) ''j1'' (PStr ''hello world'') ''rachel''
        ''elevenlabs'' None ''high'' ''t0'' 0 ''t1'')) ''j1'')) ''status'')
   \<and> terminal_voice_status
       (field (snd (get_voice_status (fst (generate_voice (voice_backend_init Map.empty) ''j1'' (PStr ''hello world'') ''rachel''
        ''elevenlabs'' None ''high'' ''t0'' 0 ''t1'')) ''j1'')) ''status'')"
proof -
  let ?g = "generate_voice (voice_backend_init Map.empty) ''j1'' (PStr ''hello world'') ''rachel''
        ''elevenlabs'' None ''high'' ''t0'' 0 ''t1''"
  have h4: "?g = (fst ?g, snd ?g)" by simp
  have h3: "truthy (PBool True)" by simp
  from voice_terminal_on_return [OF elevenlabs_registered elevenlabs_enabled h3 h4]
  obtain job where j: "voice_jobs (fst ?g) ''j1'' = Some job"
    and t: "terminal_voice_status (dget job ''status'')"
    and p: "\<And>pend evs p. pend ''j1'' = None \<Longrightarrow>
               p \<in> set (voice_polls \<lparr>backend = fst ?g, pending = pend\<rparr> evs ''j1'') \<Longrightarrow>
               terminal_voice_status (field p ''status'')"
    by blast
  have m: "snd (get_voice_status (fst ?g) ''j1'')
          \<in> set (voice_polls \<lparr>backend = fst ?g, pending = Map.empty\<rparr> [CallGetVoiceStatus ''j1''] ''j1'')"
    by simp
  have e: "Map.empty ''j1'' = (None :: voice_call option)" by simp
  have "terminal_voice_status (field (snd (get_voice_status (fst ?g) ''j1'')) ''status'')"
    by (rule p [OF e m])
  then show ?thesis using j t by simp
qed

text \<open>
  Claim C10. The dictionary returned by \<open>generate_voice\<close> is written with the key
  \<open>"status"\<close> twice, first \<open>"success"\<close> and then \<open>job["status"]\<close>. For a call with a
  registered, enabled provider the \<open>"status"\<close> of the response is therefore the status
  of the stored job, which is \<open>completed\<close> or \<open>failed\<close>, and never \<open>success\<close>.
\<close>

theorem voice_response_status:
  assumes "providers vb provider = Some cfg" and "dget cfg ''enabled'' = Some en" and "truthy en"
    and "generate_voice vb job_id text voice_id provider user_id quality now epoch now' = (vb', r)"
  shows "\<exists>job. voice_jobs vb' job_id = Some job
           \<and> field r ''status'' = dget job ''status''
           \<and> (field r ''status'' = Some (PStr ''completed'') \<or> field r ''status'' = Some (PStr ''failed''))
           \<and> field r ''status'' \<noteq> Some (PStr ''success'')"
proof -
  obtain vb1 job0 where j0: "voice_jobs vb1 job_id = Some job0"
    and g: "generate_voice vb job_id text voice_id provider user_id quality now epoch now' =
       generate_voice_finish vb1 job_id voice_id provider user_id
            (call_provider provider text voice_id quality epoch) now'"
    using generate_voice_enabled [OF assms(1-3)] by blast
  let ?job = "update_job_status job0 (call_provider provider text voice_id quality epoch) now'"
  have st: "voice_jobs vb' job_id = Some ?job"
    using generate_voice_finish_jobs [OF j0, of voice_id provider user_id _ now'] g assms(4)
    by (metis fst_conv fun_upd_same)
  have "field r ''status'' = Some (get_or ?job ''status'' PNone)"
    using generate_voice_finish_response [OF j0, of voice_id provider user_id _ now'] g assms(4)
    by (metis snd_conv)
  then have eq: "field r ''status'' = dget ?job ''status''"
    by (simp add: update_job_status_status get_or_def)
  show ?thesis using st eq by (auto simp: update_job_status_status)
qed

theorem voice_response_status_witness:
  "field (snd (generate_voice (voice_backend_init Map.empty) ''j1'' (PStr ''hello world'') ''rachel''
        ''elevenlabs'' None ''high'' ''t0'' 0 ''t1'')) ''status'' \<noteq> Some (PStr ''success'')
   \<and> (field (snd (generate_voice (voice_backend_init Map.empty) ''j1'' (PStr ''hello world'') ''rachel''
        ''elevenlabs'' None ''high'' ''t0'' 0 ''t1'')) ''status'' = Some (PStr ''completed'')
      \<or> field (snd (generate_voice (voice_backend_init Map.empty) ''j1'' (PStr ''hello world'') ''rachel''
        ''elevenlabs'' None ''high'' ''t0'' 0 ''t1'')) ''status'' = Some (PStr ''failed''))"
proof -
  let ?g = "generate_voice (voice_backend_init Map.empty) ''j1'' (PStr ''hello world'') ''rachel''
        ''elevenlabs'' None ''high'' ''t0'' 0 ''t1''"
  have h4: "?g = (fst ?g, snd ?g)" by simp
  have h3: "truthy (PBool True)" by simp
  from voice_response_status [OF elevenlabs_registered elevenlabs_enabled h3 h4]
  show ?thesis by blast
qed

section \<open>Properties of the status queries\<close>

lemma isoformat_item_Copied:
  "\<exists>d'. isoformat_item tbl (Copied d) k = (tbl, Copied d') \<and> (d \<noteq> [] \<longrightarrow> d' \<noteq> [])"
  by (auto simp: isoformat_item_def setitem_def deref_def split: option.splits pyval.splits)

lemma put_job_table_same [simp]: "put_job_table pb b (job_table_of pb b) = pb"
  by (simp add: put_job_table_def job_table_of_def)

lemma get_generation_status_frame: "fst (get_generation_status cb j) = cb"
proof (cases "generation_jobs cb j")
  case None
  then show ?thesis by (simp add: get_generation_status_def)
next
  case (Some job0)
  obtain d1 where 1: "isoformat_item (generation_jobs cb) (Copied job0) ''created_at'' = (generation_jobs cb, Copied d1)"
    using isoformat_item_Copied by blast
  obtain d2 where 2: "isoformat_item (generation_jobs cb) (Copied d1) ''completed_at'' = (generation_jobs cb, Copied d2)"
    using isoformat_item_Copied by blast
  show ?thesis using Some 1 2
    by (simp add: get_generation_status_def copy_dict_def deref_def)
qed

lemma get_publishing_status_frame: "fst (get_publishing_status pb j) = pb"
proof (cases "find_job pb j")
  case None
  then show ?thesis by (simp add: get_publishing_status_def)
next
  case (Some b)
  let ?tbl = "job_table_of pb b"
  obtain d1 where 1: "isoformat_item ?tbl (Copied (deref ?tbl (Stored j))) ''created_at'' = (?tbl, Copied d1)"
    using isoformat_item_Copied by blast
  obtain d2 where 2: "isoformat_item ?tbl (Copied d1) ''completed_at'' = (?tbl, Copied d2)"
    using isoformat_item_Copied by blast
  show ?thesis using Some 1 2
    by (simp add: get_publishing_status_def copy_dict_def)
qed

lemma get_voice_status_frame: "fst (get_voice_status vb j) = vb"
  by (simp add: get_voice_status_def split: option.splits)




text \<open>
  Claim C8. The status queries only read: \<open>get_voice_status\<close> builds a new dictionary
  from the fields it reads, and \<open>get_generation_status\<close> and \<open>get_publishing_status\<close>
  convert the timestamps in a copy of the job, never in the stored job. Each of them
  leaves the whole backend (the job tables and everything else) as it was.
\<close>

theorem status_queries_read_only:
  "fst (get_voice_status vb job_id) = vb
   \<and> fst (get_generation_status cb job_id) = cb
   \<and> fst (get_publishing_status pb post_id) = pb"
  by (simp add: get_voice_status_frame get_generation_status_frame get_publishing_status_frame)




section \<open>Properties of the content generation task\<close>

lemma job_field_store_item:
  "job_field (store_item tbl j k v) j' k' =
     (if j' = j \<and> k' = k \<and> tbl j \<noteq> None then Some v else job_field tbl j' k')"
  by (auto simp: job_field_def store_item_def split: option.splits)

lemma store_item_None [simp]: "(store_item tbl j k v j' = None) = (tbl j' = None)"
  by (auto simp: store_item_def split: option.splits)

lemma generation_failed_None [simp]: "(generation_failed tbl j msg j' = None) = (tbl j' = None)"
  by (simp add: generation_failed_def)

lemma job_field_generation_failed:
  "tbl j \<noteq> None \<Longrightarrow>
   job_field (generation_failed tbl j msg) j k =
     (if k = ''current_step'' then Some (PStr (''Generation failed: '' @ msg))
      else if k = ''error'' then Some (PStr msg)
      else if k = ''status'' then Some (PStr ''failed'')
      else job_field tbl j k)"
  by (simp add: generation_failed_def job_field_store_item)

text \<open>
  Claim C5, as stated, fails: a job with a voice model and an avatar model and content
  type \<open>video\<close> runs four stages; after the first three its progress is 20, 60 and 85,
  where the formula \<open>round(100 * (i+1) / 4)\<close> gives 25, 50 and 75.
\<close>

theorem progress_formula_counterexample:
  "job_field (generation_jobs (cbackend (content_run content_sys_init
       [CallGenerateContent ''j1'' ''u1'' ''hello'' ''video'' (Some ''v1'') (Some ''a1'') ''t0'' 3,
        ResumeGeneration ''j1'' None 0 ''t1'']))) ''j1'' ''progress'' = Some (PInt 20)
   \<and> spec_progress 0 4 = 25
   \<and> job_field (generation_jobs (cbackend (content_run content_sys_init
       [CallGenerateContent ''j1'' ''u1'' ''hello'' ''video'' (Some ''v1'') (Some ''a1'') ''t0'' 3,
        ResumeGeneration ''j1'' None 0 ''t1'', ResumeGeneration ''j1'' None 0 ''t2'']))) ''j1'' ''progress'' = Some (PInt 60)
   \<and> spec_progress 1 4 = 50
   \<and> job_field (generation_jobs (cbackend (content_run content_sys_init
       [CallGenerateContent ''j1'' ''u1'' ''hello'' ''video'' (Some ''v1'') (Some ''a1'') ''t0'' 3,
        ResumeGeneration ''j1'' None 0 ''t1'', ResumeGeneration ''j1'' None 0 ''t2'',
        ResumeGeneration ''j1'' None 0 ''t3'']))) ''j1'' ''progress'' = Some (PInt 85)
   \<and> spec_progress 2 4 = 75"
  by code_simp

text \<open>
  Claim C5, amended. When a stage of the task ends, the job's progress is set to the
  fixed value of that stage (20 after script processing, 60 after the voice sleep, 85
  after the video sleep, 100 at finalization), whatever the number of stages that run,
  and \<open>current_step\<close> holds a text.
\<close>

theorem stage_progress_fixed:
  assumes "tbl job_id = Some job"
    and "generate_real_content_resume tbl job_id t io_error epoch now = (tbl', t')"
  shows "job_field tbl' job_id ''progress'' = Some (PInt (stage_progress (gt_pc t)))
         \<and> (\<exists>s. job_field tbl' job_id ''current_step'' = Some (PStr s))"
proof -
  have ne: "tbl job_id \<noteq> None" using assms(1) by simp
  show ?thesis
  proof (cases "gt_pc t")
    case SleepScript
    then show ?thesis using assms(2) ne
      by (auto simp: generate_real_content_resume_def Let_def job_field_store_item)
  next
    case SleepVoice
    then show ?thesis using assms(2) ne
      by (auto simp: generate_real_content_resume_def Let_def job_field_store_item
            job_field_generation_failed split: sum.splits)
  next
    case SleepVideo
    then show ?thesis using assms(2) ne
      by (auto simp: generate_real_content_resume_def Let_def job_field_store_item
            job_field_generation_failed split: sum.splits)
  next
    case SleepFinal
    then show ?thesis using assms(2) ne
      by (auto simp: generate_real_content_resume_def Let_def job_field_store_item)
  qed
qed

theorem stage_progress_fixed_witness:
  "job_field
     (fst (generate_real_content_resume
        (generation_jobs (fst (generate_content content_backend_init ''j1'' ''u1'' ''hello'' ''video'' ''t0'' 3)))
        ''j1''
        \<lparr>gt_user_id = ''u1'', gt_script = ''hello'', gt_content_type = ''video'',
         gt_voice_model_id = Some ''v1'', gt_avatar_model_id = Some ''a1'', gt_pc = SleepVoice\<rparr>
        None 0 ''t1''))
     ''j1'' ''progress'' = Some (PInt 60)"
proof -
  let ?tbl = "generation_jobs (fst (generate_content content_backend_init ''j1'' ''u1'' ''hello'' ''video'' ''t0'' 3))"
  let ?t = "\<lparr>gt_user_id = ''u1'', gt_script = ''hello'', gt_content_type = ''video'',
         gt_voice_model_id = Some ''v1'', gt_avatar_model_id = Some ''a1'', gt_pc = SleepVoice\<rparr>"
  let ?r = "generate_real_content_resume ?tbl ''j1'' ?t None 0 ''t1''"
  have h1: "?tbl ''j1'' = Some (the (?tbl ''j1''))"
    by (simp add: generate_content_def)
  have h2: "?r = (fst ?r, snd ?r)" by simp
  from stage_progress_fixed [OF h1 h2] show ?thesis by simp
qed

section \<open>Properties of cancellation\<close>

text \<open>
  Claim C2 (a job cancelled while it is processing ends as \<open>cancelled\<close>, and no
  result of a later stage is stored) is violated by the code. In
  \<open>cancel_between_platforms\<close> the post is cancelled after its first platform, with
  \<open>twitter\<close> still to publish. Right after the cancellation the status is
  \<open>cancelled\<close> and \<open>completed_at\<close> is not set; the task never reads the status, so
  it goes on to publish \<open>twitter\<close>, and when it has run to its end the status is
  \<open>completed\<close>, \<open>completed_at\<close> is the time of that end and the results include
  \<open>twitter\<close>.
\<close>

theorem cancel_mid_processing_ignored:
  "pending_platforms (pub_tasks (publishing_run publishing_sys_init
       (publish_first_platform @ [CallCancelScheduledPost ''p1''])) ''p1'') = [''twitter'']
   \<and> job_field (scheduled_posts (pbackend (publishing_run publishing_sys_init
       (publish_first_platform @ [CallCancelScheduledPost ''p1'']))))
       ''p1'' ''status'' = Some (PStr ''cancelled'')
   \<and> job_field (scheduled_posts (pbackend (publishing_run publishing_sys_init
       (publish_first_platform @ [CallCancelScheduledPost ''p1'']))))
       ''p1'' ''completed_at'' = None
   \<and> job_field (scheduled_posts (pbackend (publishing_run publishing_sys_init
       cancel_between_platforms))) ''p1'' ''status'' = Some (PStr ''completed'')
   \<and> job_field (scheduled_posts (pbackend (publishing_run publishing_sys_init
       cancel_between_platforms))) ''p1'' ''completed_at'' = Some (PStr ''216'')
   \<and> dict_keys (job_field (scheduled_posts (pbackend (publishing_run publishing_sys_init
       cancel_between_platforms))) ''p1'' ''results'') = [''instagram'', ''twitter'']"
  by code_simp

text \<open>
  Claim C1 (terminal statuses are absorbing) is violated by the code. In
  \<open>cancel_before_due\<close> the post is cancelled while its task sleeps; the task wakes up,
  publishes and overwrites the status, and a later cancellation overwrites it again: the
  three status queries see \<open>cancelled\<close>, then \<open>completed\<close>, then \<open>cancelled\<close>.
\<close>

theorem cancelled_post_is_published:
  "poll_statuses (publishing_polls publishing_sys_init cancel_before_due ''p1'') =
     [Some (PStr ''cancelled''), Some (PStr ''completed''), Some (PStr ''cancelled'')]"
  by code_simp

section \<open>Progress of a job while it is processing\<close>

lemma store_item_other: "j' \<noteq> j \<Longrightarrow> store_item tbl j k v j' = tbl j'"
  by (simp add: store_item_def split: option.splits)

lemma generation_failed_other: "j' \<noteq> j \<Longrightarrow> generation_failed tbl j msg j' = tbl j'"
  by (simp add: generation_failed_def store_item_other)

lemma job_field_cong: "tbl' j = tbl j \<Longrightarrow> job_field tbl' j k = job_field tbl j k"
  by (simp add: job_field_def)

lemma resume_other:
  "j' \<noteq> j \<Longrightarrow> fst (generate_real_content_resume tbl j t io epoch now) j' = tbl j'"
  by (cases "gt_pc t")
     (auto simp: generate_real_content_resume_def Let_def store_item_other generation_failed_other
           split: sum.splits)

lemma resume_exists:
  "tbl j \<noteq> None \<Longrightarrow> fst (generate_real_content_resume tbl j t io epoch now) j \<noteq> None"
  by (cases "gt_pc t")
     (simp_all add: generate_real_content_resume_def Let_def del: not_None_eq split: sum.splits)

lemma resume_continue:
  assumes "tbl j \<noteq> None"
    and "generate_real_content_resume tbl j t io epoch now = (tbl', Some t2)"
  shows "job_field tbl' j ''status'' = job_field tbl j ''status''
       \<and> job_field tbl' j ''error'' = job_field tbl j ''error''
       \<and> job_field tbl' j ''progress'' = Some (PInt (stage_progress (gt_pc t)))
       \<and> stage_progress (gt_pc t) < stage_progress (gt_pc t2)
       \<and> (gt_pc t2 \<noteq> SleepFinal \<longrightarrow> job_field tbl' j ''video_file'' = job_field tbl j ''video_file'')"
  using assms
  by (cases "gt_pc t")
     (auto simp: generate_real_content_resume_def Let_def job_field_store_item
           split: sum.splits if_splits)

lemma resume_end:
  assumes "tbl j \<noteq> None"
    and "generate_real_content_resume tbl j t io epoch now = (tbl', None)"
  shows "(job_field tbl' j ''status'' = Some (PStr ''completed'')
            \<and> job_field tbl' j ''error'' = job_field tbl j ''error'')
       \<or> (job_field tbl' j ''status'' = Some (PStr ''failed'')
            \<and> job_field tbl' j ''error'' \<noteq> None
            \<and> gt_pc t \<noteq> SleepFinal
            \<and> job_field tbl' j ''video_file'' = job_field tbl j ''video_file'')"
  using assms
  by (cases "gt_pc t")
     (auto simp: generate_real_content_resume_def Let_def job_field_store_item
           job_field_generation_failed split: sum.splits if_splits)

lemma job_field_opt: "job_field tbl j k = opt_field (tbl j) k"
  by (simp add: job_field_def opt_field_def)

lemma isoformat_item_Copied_fields:
  "\<exists>d'. isoformat_item tbl (Copied d) k = (tbl, Copied d') \<and> (d \<noteq> [] \<longrightarrow> d' \<noteq> [])
        \<and> (\<forall>k'. k' \<noteq> k \<longrightarrow> dget d' k' = dget d k')"
  by (auto simp: isoformat_item_def setitem_def deref_def split: option.splits pyval.splits)

lemma get_generation_status_field:
  assumes "k \<noteq> ''created_at''" "k \<noteq> ''completed_at''"
  shows "field (snd (get_generation_status cb j)) k = opt_field (generation_jobs cb j) k"
proof (cases "generation_jobs cb j")
  case None
  then show ?thesis by (simp add: get_generation_status_def field_def opt_field_def)
next
  case (Some job0)
  obtain d1 where 1: "isoformat_item (generation_jobs cb) (Copied job0) ''created_at'' = (generation_jobs cb, Copied d1)"
    and e1: "dget d1 k = dget job0 k"
    using isoformat_item_Copied_fields [of "generation_jobs cb" job0 "''created_at''"] assms by blast
  obtain d2 where 2: "isoformat_item (generation_jobs cb) (Copied d1) ''completed_at'' = (generation_jobs cb, Copied d2)"
    and e2: "dget d2 k = dget d1 k"
    using isoformat_item_Copied_fields [of "generation_jobs cb" d1 "''completed_at''"] assms by blast
  show ?thesis using Some 1 2 e1 e2
    by (simp add: get_generation_status_def copy_dict_def deref_def field_def opt_field_def)
qed

lemma processing_progress_append:
  "processing_progress (xs @ ys) = processing_progress xs @ processing_progress ys"
  by (induction xs) auto

lemma gen_observed:
  "processing_progress [snd (get_generation_status cb j)] = observed (generation_jobs cb j)"
  by (simp add: get_generation_status_field observed_def)

lemma observed_floor: "x \<in> set (observed jo) \<Longrightarrow> x = progress_floor jo"
  by (cases "opt_field jo ''status'' = Some (PStr ''processing'')")
     (auto simp: observed_def progress_floor_def split: option.splits pyval.splits)

lemma observed_sorted: "sorted (observed jo)"
  by (auto simp: observed_def split: option.splits pyval.splits)

lemma observed_finished: "job_finished topt jo \<Longrightarrow> observed jo = []"
  by (simp add: observed_def job_finished_def)

lemma content_step_poll [simp]: "content_step s (CallGetGenerationStatus j') = s"
  by (simp add: get_generation_status_frame)

lemma content_step_view:
  "(gen_tasks (content_step s ev) j = gen_tasks s j
      \<and> generation_jobs (cbackend (content_step s ev)) j = generation_jobs (cbackend s) j)
   \<or> (generation_jobs (cbackend s) j = None
      \<and> (\<exists>t d. gen_tasks (content_step s ev) j = Some t \<and> gt_pc t = SleepScript
            \<and> generation_jobs (cbackend (content_step s ev)) j = Some d
            \<and> dget d ''status'' = Some (PStr ''processing'')
            \<and> dget d ''progress'' = Some (PInt 0)
            \<and> dget d ''error'' = None \<and> dget d ''video_file'' = None))
   \<or> (\<exists>t io epoch nw. gen_tasks s j = Some t
          \<and> gen_tasks (content_step s ev) j
              = snd (generate_real_content_resume (generation_jobs (cbackend s)) j t io epoch nw)
          \<and> generation_jobs (cbackend (content_step s ev)) j
              = fst (generate_real_content_resume (generation_jobs (cbackend s)) j t io epoch nw) j)"
proof (cases ev)
  case (CallGenerateContent j' u sc ct vm am nw m)
  show ?thesis
  proof (cases "j' = j \<and> generation_jobs (cbackend s) j = None")
    case True
    have "generation_jobs (cbackend s) j = None" using True by simp
    moreover have "\<exists>t d. gen_tasks (content_step s ev) j = Some t \<and> gt_pc t = SleepScript
            \<and> generation_jobs (cbackend (content_step s ev)) j = Some d
            \<and> dget d ''status'' = Some (PStr ''processing'')
            \<and> dget d ''progress'' = Some (PInt 0)
            \<and> dget d ''error'' = None \<and> dget d ''video_file'' = None"
      using True CallGenerateContent by (simp add: generate_content_def dict_lit_def)
    ultimately show ?thesis by blast
  next
    case False
    then have "gen_tasks (content_step s ev) j = gen_tasks s j
      \<and> generation_jobs (cbackend (content_step s ev)) j = generation_jobs (cbackend s) j"
      using CallGenerateContent by (auto simp: generate_content_def)
    then show ?thesis by blast
  qed
next
  case (ResumeGeneration j' io epoch nw)
  show ?thesis
  proof (cases "gen_tasks s j'")
    case None
    then show ?thesis using ResumeGeneration by simp
  next
    case (Some t)
    show ?thesis
    proof (cases "j' = j")
      case False
      then have "gen_tasks (content_step s ev) j = gen_tasks s j
        \<and> generation_jobs (cbackend (content_step s ev)) j = generation_jobs (cbackend s) j"
        using ResumeGeneration Some
          resume_other [of j j' "generation_jobs (cbackend s)" t io epoch nw]
        by (simp add: case_prod_beta)
      then show ?thesis by blast
    next
      case True
      then have "gen_tasks s j = Some t
          \<and> gen_tasks (content_step s ev) j
              = snd (generate_real_content_resume (generation_jobs (cbackend s)) j t io epoch nw)
          \<and> generation_jobs (cbackend (content_step s ev)) j
              = fst (generate_real_content_resume (generation_jobs (cbackend s)) j t io epoch nw) j"
        using ResumeGeneration Some by (simp add: case_prod_beta)
      then show ?thesis by blast
    qed
  qed
next
  case (CallGetGenerationStatus j')
  then show ?thesis by (simp add: get_generation_status_frame)
qed

lemma resume_ok:
  assumes "gen_ok (Some t) (tbl j)"
  shows "gen_ok (snd (generate_real_content_resume tbl j t io epoch nw))
                (fst (generate_real_content_resume tbl j t io epoch nw) j)
       \<and> (job_finished (snd (generate_real_content_resume tbl j t io epoch nw))
                (fst (generate_real_content_resume tbl j t io epoch nw) j)
          \<or> progress_floor (tbl j)
               \<le> progress_floor (fst (generate_real_content_resume tbl j t io epoch nw) j))"
proof -
  obtain tbl' t' where r: "generate_real_content_resume tbl j t io epoch nw = (tbl', t')"
    by (cases "generate_real_content_resume tbl j t io epoch nw")
  have ok: "opt_field (tbl j) ''status'' = Some (PStr ''processing'')"
    and er: "opt_field (tbl j) ''error'' = None"
    and vf: "gt_pc t \<noteq> SleepFinal \<longrightarrow> opt_field (tbl j) ''video_file'' = None"
    using assms by (auto simp: gen_ok_def)
  obtain p where p: "opt_field (tbl j) ''progress'' = Some (PInt p)" "0 \<le> p" "p < stage_progress (gt_pc t)"
    using assms by (auto simp: gen_ok_def)
  have ex: "tbl j \<noteq> None" using ok by (auto simp: opt_field_def split: option.splits)
  have ex': "tbl' j \<noteq> None" using resume_exists [of tbl j t io epoch nw] ex r by simp
  show ?thesis
  proof (cases t')
    case None
    note e = resume_end [of tbl j t io epoch nw tbl', unfolded job_field_opt] ex r [unfolded None]
    have e': "(opt_field (tbl' j) ''status'' = Some (PStr ''completed'')
            \<and> opt_field (tbl' j) ''error'' = opt_field (tbl j) ''error'')
       \<or> (opt_field (tbl' j) ''status'' = Some (PStr ''failed'')
            \<and> opt_field (tbl' j) ''error'' \<noteq> None
            \<and> gt_pc t \<noteq> SleepFinal
            \<and> opt_field (tbl' j) ''video_file'' = opt_field (tbl j) ''video_file'')"
      using e by blast
    have 1: "gen_ok None (tbl' j)"
      using e' er vf by (auto simp: gen_ok_def)
    have 2: "job_finished (None :: gen_task option) (tbl' j)"
      using e' ex' by (auto simp: job_finished_def)
    show ?thesis using r None 1 2 by simp
  next
    case (Some t2)
    note c = resume_continue [of tbl j t io epoch nw tbl' t2, unfolded job_field_opt] ex r [unfolded Some]
    have c': "opt_field (tbl' j) ''status'' = opt_field (tbl j) ''status''
       \<and> opt_field (tbl' j) ''error'' = opt_field (tbl j) ''error''
       \<and> opt_field (tbl' j) ''progress'' = Some (PInt (stage_progress (gt_pc t)))
       \<and> stage_progress (gt_pc t) < stage_progress (gt_pc t2)
       \<and> (gt_pc t2 \<noteq> SleepFinal \<longrightarrow> opt_field (tbl' j) ''video_file'' = opt_field (tbl j) ''video_file'')"
      using c by blast
    have st: "opt_field (tbl' j) ''status'' = Some (PStr ''processing'')" using c' ok by simp
    have pr: "opt_field (tbl' j) ''progress'' = Some (PInt (stage_progress (gt_pc t)))" using c' by simp
    have lt: "stage_progress (gt_pc t) < stage_progress (gt_pc t2)" using c' by simp
    have e2: "opt_field (tbl' j) ''error'' = None" using c' er by simp
    have v2: "gt_pc t2 \<noteq> SleepFinal \<longrightarrow> opt_field (tbl' j) ''video_file'' = None"
    proof
      assume a: "gt_pc t2 \<noteq> SleepFinal"
      then have "gt_pc t \<noteq> SleepFinal" using lt by (cases "gt_pc t"; cases "gt_pc t2") auto
      then show "opt_field (tbl' j) ''video_file'' = None" using c' a vf by simp
    qed
    have pos: "0 \<le> stage_progress (gt_pc t)" by (cases "gt_pc t") auto
    have 1: "gen_ok (Some t2) (tbl' j)"
      using st pr lt e2 v2 pos by (simp add: gen_ok_def)
    have 2: "progress_floor (tbl j) \<le> progress_floor (tbl' j)"
      using ok p st pr by (simp add: progress_floor_def)
    show ?thesis using r Some 1 2 by simp
  qed
qed

lemma gen_ok_step:
  assumes "gen_ok (gen_tasks s j) (generation_jobs (cbackend s) j)"
  shows "gen_ok (gen_tasks (content_step s ev) j) (generation_jobs (cbackend (content_step s ev)) j)
       \<and> (job_finished (gen_tasks (content_step s ev) j) (generation_jobs (cbackend (content_step s ev)) j)
          \<or> progress_floor (generation_jobs (cbackend s) j)
               \<le> progress_floor (generation_jobs (cbackend (content_step s ev)) j))"
proof -
  consider
    (same) "gen_tasks (content_step s ev) j = gen_tasks s j"
           "generation_jobs (cbackend (content_step s ev)) j = generation_jobs (cbackend s) j"
  | (new) t d where "generation_jobs (cbackend s) j = None"
           "gen_tasks (content_step s ev) j = Some t" "gt_pc t = SleepScript"
           "generation_jobs (cbackend (content_step s ev)) j = Some d"
           "dget d ''status'' = Some (PStr ''processing'')"
           "dget d ''progress'' = Some (PInt 0)"
           "dget d ''error'' = None" "dget d ''video_file'' = None"
  | (resumed) t io epoch nw where "gen_tasks s j = Some t"
           "gen_tasks (content_step s ev) j
              = snd (generate_real_content_resume (generation_jobs (cbackend s)) j t io epoch nw)"
           "generation_jobs (cbackend (content_step s ev)) j
              = fst (generate_real_content_resume (generation_jobs (cbackend s)) j t io epoch nw) j"
    using content_step_view [of s ev j] by blast
  then show ?thesis
  proof cases
    case same
    then show ?thesis using assms by simp
  next
    case new
    then show ?thesis
      by (simp add: gen_ok_def opt_field_def progress_floor_def)
  next
    case resumed
    then show ?thesis
      using resume_ok [of t "generation_jobs (cbackend s)" j io epoch nw] assms by simp
  qed
qed

lemma job_finished_content_step:
  assumes "job_finished (gen_tasks s j) (generation_jobs (cbackend s) j)"
  shows "job_finished (gen_tasks (content_step s ev) j) (generation_jobs (cbackend (content_step s ev)) j)"
  using content_step_view [of s ev j] assms by (auto simp: job_finished_def)

lemma gen_finished_polls:
  "job_finished (gen_tasks s j) (generation_jobs (cbackend s) j) \<Longrightarrow>
     processing_progress (content_polls s evs j) = []"
proof (induction evs arbitrary: s)
  case Nil
  then show ?case by simp
next
  case (Cons ev evs)
  have "processing_progress [snd (get_generation_status (cbackend s) j)] = []"
    using Cons.prems by (simp only: gen_observed observed_finished)
  moreover have "processing_progress (content_polls (content_step s ev) evs j) = []"
    using Cons.IH job_finished_content_step [OF Cons.prems] by blast
  ultimately show ?case
    by (cases ev) (simp_all add: processing_progress_append del: processing_progress.simps(2))
qed

lemma gen_polls_sorted:
  "gen_ok (gen_tasks s j) (generation_jobs (cbackend s) j) \<Longrightarrow>
     sorted (processing_progress (content_polls s evs j))
     \<and> (\<forall>x \<in> set (processing_progress (content_polls s evs j)).
           progress_floor (generation_jobs (cbackend s) j) \<le> x)"
proof (induction evs arbitrary: s)
  case Nil
  then show ?case by simp
next
  case (Cons ev evs)
  let ?s' = "content_step s ev"
  let ?hd = "(case ev of CallGetGenerationStatus j' \<Rightarrow>
                if j' = j then [snd (get_generation_status (cbackend s) j)] else [] | _ \<Rightarrow> [])"
  let ?rest = "processing_progress (content_polls ?s' evs j)"
  note st = gen_ok_step [OF Cons.prems, of ev]
  have split: "processing_progress (content_polls s (ev # evs) j) = processing_progress ?hd @ ?rest"
    by (simp add: processing_progress_append del: processing_progress.simps)
  have hd_cases: "processing_progress ?hd = [] \<or> processing_progress ?hd = observed (generation_jobs (cbackend s) j)"
    by (cases ev) (simp_all add: gen_observed del: processing_progress.simps(2))
  have hd: "\<forall>x \<in> set (processing_progress ?hd). x = progress_floor (generation_jobs (cbackend s) j)"
    using hd_cases observed_floor by fastforce
  have hd1: "sorted (processing_progress ?hd)"
    using hd_cases observed_sorted by fastforce
  have rest: "sorted ?rest \<and> (\<forall>x \<in> set ?rest. progress_floor (generation_jobs (cbackend s) j) \<le> x)"
  proof (cases "job_finished (gen_tasks ?s' j) (generation_jobs (cbackend ?s') j)")
    case True
    then show ?thesis by (simp add: gen_finished_polls)
  next
    case False
    then have "progress_floor (generation_jobs (cbackend s) j) \<le> progress_floor (generation_jobs (cbackend ?s') j)"
      using st by blast
    moreover have "sorted ?rest \<and> (\<forall>x \<in> set ?rest. progress_floor (generation_jobs (cbackend ?s') j) \<le> x)"
      using Cons.IH st by blast
    ultimately show ?thesis by fastforce
  qed
  show ?case
    unfolding split using hd hd1 rest by (auto simp: sorted_append)
qed

lemma gen_ok_init: "gen_ok (gen_tasks content_sys_init j) (generation_jobs (cbackend content_sys_init) j)"
  by (simp add: gen_ok_def content_sys_init_def content_backend_init_def opt_field_def)

lemma content_progress_sorted:
  "sorted (processing_progress (content_polls content_sys_init evs j))"
  using gen_polls_sorted [OF gen_ok_init] by blast

lemma call_provider_success:
  "dget (call_provider provider tx voice_id quality epoch) ''status'' = Some (PStr ''success'') \<Longrightarrow>
     \<exists>u. dget (call_provider provider tx voice_id quality epoch) ''audio_url'' = Some (PStr u)"
  by (auto simp: call_provider_def generate_elevenlabs_voice_def generate_azure_voice_def
        generate_google_voice_def generate_speechelo_voice_def dict_lit_def
        split: if_splits option.splits)

lemma update_job_status_fields:
  "dget (update_job_status job result nw) ''error'' =
     (if dget result ''status'' = Some (PStr ''success'') then dget job ''error''
      else Some (get_or result ''error'' (PStr ''Unknown error'')))"
  "dget (update_job_status job result nw) ''audio_url'' =
     (if dget result ''status'' = Some (PStr ''success'') then Some (get_or result ''audio_url'' PNone)
      else dget job ''audio_url'')"
  by (simp_all add: update_job_status_def)

lemma voice_step_view:
  "(pending (voice_step s ev) j = pending s j
      \<and> voice_jobs (backend (voice_step s ev)) j = voice_jobs (backend s) j)
   \<or> (voice_jobs (backend s) j = None
      \<and> (\<exists>c d. pending (voice_step s ev) j = Some c
            \<and> voice_jobs (backend (voice_step s ev)) j = Some d
            \<and> dget d ''status'' = Some (PStr ''processing'')
            \<and> dget d ''progress'' = Some (PInt 0)
            \<and> dget d ''error'' = None \<and> dget d ''audio_url'' = None))
   \<or> (\<exists>c job0 epoch nw. pending s j = Some c \<and> voice_jobs (backend s) j = Some job0
          \<and> pending (voice_step s ev) j = None
          \<and> voice_jobs (backend (voice_step s ev)) j
              = Some (update_job_status job0
                  (call_provider (vc_provider c) (vc_text c) (vc_voice_id c) (vc_quality c) epoch) nw))
   \<or> (\<exists>c. pending s j = Some c \<and> voice_jobs (backend s) j = None
          \<and> voice_jobs (backend (voice_step s ev)) j = None)"
proof (cases ev)
  case (CallGenerateVoice j' tx voice_id provider user_id quality nw)
  show ?thesis
  proof (cases "voice_jobs (backend s) j' \<noteq> None")
    case True
    then show ?thesis using CallGenerateVoice by simp
  next
    case False
    obtain vb r where b: "generate_voice_begin (backend s) j' tx voice_id provider user_id quality nw = (vb, r)"
      by (cases "generate_voice_begin (backend s) j' tx voice_id provider user_id quality nw")
    show ?thesis
    proof (cases r)
      case (Some a)
      with b have "vb = backend s" by (simp add: generate_voice_begin_returned)
      then show ?thesis using CallGenerateVoice False b Some by simp
    next
      case None
      note g = generate_voice_begin_cases [OF b [unfolded None]]
      show ?thesis
      proof (cases "j' = j")
        case True
        have "voice_jobs (backend s) j = None" using False True by simp
        moreover have "\<exists>c d. pending (voice_step s ev) j = Some c
            \<and> voice_jobs (backend (voice_step s ev)) j = Some d
            \<and> dget d ''status'' = Some (PStr ''processing'')
            \<and> dget d ''progress'' = Some (PInt 0)
            \<and> dget d ''error'' = None \<and> dget d ''audio_url'' = None"
          using CallGenerateVoice False b None g True by (simp add: dict_lit_def)
        ultimately show ?thesis by blast
      next
        case ne: False
        then show ?thesis using CallGenerateVoice False b None g by simp
      qed
    qed
  qed
next
  case (ProviderReturns j' epoch nw)
  show ?thesis
  proof (cases "pending s j'")
    case None
    then show ?thesis using ProviderReturns by simp
  next
    case (Some c)
    show ?thesis
    proof (cases "j' = j")
      case False
      then show ?thesis using ProviderReturns Some
        by (simp add: generate_voice_finish_other)
    next
      case True
      show ?thesis
      proof (cases "voice_jobs (backend s) j")
        case None
        then have "voice_jobs (backend (voice_step s ev)) j = None"
          using ProviderReturns Some True by (simp add: generate_voice_finish_def)
        then show ?thesis using Some True None by blast
      next
        case (Some job0)
        have "pending (voice_step s ev) j = None"
          using ProviderReturns \<open>pending s j' = Some c\<close> True by simp
        moreover have "voice_jobs (backend (voice_step s ev)) j
              = Some (update_job_status job0
                  (call_provider (vc_provider c) (vc_text c) (vc_voice_id c) (vc_quality c) epoch) nw)"
          using ProviderReturns \<open>pending s j' = Some c\<close> True generate_voice_finish_jobs [OF Some]
          by simp
        ultimately show ?thesis using \<open>pending s j' = Some c\<close> True Some by blast
      qed
    qed
  qed
next
  case (CallGetVoiceStatus j')
  then show ?thesis by (simp add: get_voice_status_frame)
qed

lemma voice_ok_step:
  assumes "voice_ok (pending s j) (voice_jobs (backend s) j)"
  shows "voice_ok (pending (voice_step s ev) j) (voice_jobs (backend (voice_step s ev)) j)"
proof -
  consider
    (same) "pending (voice_step s ev) j = pending s j"
           "voice_jobs (backend (voice_step s ev)) j = voice_jobs (backend s) j"
  | (new) c d where "pending (voice_step s ev) j = Some c"
            "voice_jobs (backend (voice_step s ev)) j = Some d"
            "dget d ''status'' = Some (PStr ''processing'')"
            "dget d ''progress'' = Some (PInt 0)"
            "dget d ''error'' = None" "dget d ''audio_url'' = None"
  | (fin) c job0 epoch nw where "pending s j = Some c" "voice_jobs (backend s) j = Some job0"
          "pending (voice_step s ev) j = None"
          "voice_jobs (backend (voice_step s ev)) j
              = Some (update_job_status job0
                  (call_provider (vc_provider c) (vc_text c) (vc_voice_id c) (vc_quality c) epoch) nw)"
  | (gone) c where "pending s j = Some c" "voice_jobs (backend s) j = None"
    using voice_step_view [of s ev j] by blast
  then show ?thesis
  proof cases
    case same
    then show ?thesis using assms by simp
  next
    case new
    then show ?thesis by (simp add: voice_ok_def opt_field_def)
  next
    case fin
    let ?res = "call_provider (vc_provider c) (vc_text c) (vc_voice_id c) (vc_quality c) epoch"
    have e0: "dget job0 ''error'' = None" and a0: "dget job0 ''audio_url'' = None"
      using assms fin(1,2) by (auto simp: voice_ok_def opt_field_def)
    show ?thesis
    proof (cases "dget ?res ''status'' = Some (PStr ''success'')")
      case True
      obtain u where "dget ?res ''audio_url'' = Some (PStr u)"
        using call_provider_success [OF True] by blast
      then show ?thesis using fin True e0
        by (simp add: voice_ok_def opt_field_def update_job_status_status update_job_status_fields get_or_def)
    next
      case False
      then show ?thesis using fin a0
        by (simp add: voice_ok_def opt_field_def update_job_status_status update_job_status_fields)
    qed
  next
    case gone
    then show ?thesis using assms by (simp add: voice_ok_def opt_field_def)
  qed
qed

lemma voice_observed:
  assumes "voice_ok copt (voice_jobs vb j)"
  shows "\<forall>x \<in> set (processing_progress [snd (get_voice_status vb j)]). x = 0"
proof (cases "voice_jobs vb j")
  case None
  then show ?thesis by (simp add: get_voice_status_def field_def dict_lit_def)
next
  case (Some job)
  have f: "field (snd (get_voice_status vb j)) ''status'' = Some (get_or job ''status'' PNone)"
    "field (snd (get_voice_status vb j)) ''progress'' = Some (get_or job ''progress'' (PInt 0))"
    using Some by (simp_all add: get_voice_status_def field_def dict_lit_def)
  show ?thesis
  proof (cases "dget job ''status'' = Some (PStr ''processing'')")
    case True
    then have "dget job ''progress'' = Some (PInt 0)"
      using assms Some by (cases copt) (auto simp: voice_ok_def opt_field_def)
    then show ?thesis using f True by (simp add: get_or_def)
  next
    case False
    then have "get_or job ''status'' PNone \<noteq> PStr ''processing''"
      by (auto simp: get_or_def split: option.splits)
    then show ?thesis using f by simp
  qed
qed

lemma voice_polls_zero:
  "voice_ok (pending s j) (voice_jobs (backend s) j) \<Longrightarrow>
     \<forall>x \<in> set (processing_progress (voice_polls s evs j)). x = 0"
proof (induction evs arbitrary: s)
  case Nil
  then show ?case by simp
next
  case (Cons ev evs)
  let ?hd = "(case ev of CallGetVoiceStatus j' \<Rightarrow>
                if j' = j then [snd (get_voice_status (backend s) j)] else [] | _ \<Rightarrow> [])"
  have split: "processing_progress (voice_polls s (ev # evs) j)
      = processing_progress ?hd @ processing_progress (voice_polls (voice_step s ev) evs j)"
    by (simp add: processing_progress_append del: processing_progress.simps)
  have hd_cases: "?hd = [] \<or> ?hd = [snd (get_voice_status (backend s) j)]"
    by (cases ev) simp_all
  have hd: "\<forall>x \<in> set (processing_progress ?hd). x = 0"
    using hd_cases
  proof
    assume "?hd = []"
    then show ?thesis by simp
  next
    assume "?hd = [snd (get_voice_status (backend s) j)]"
    then show ?thesis
      using voice_observed [OF Cons.prems] by (simp del: processing_progress.simps)
  qed
  have rest: "\<forall>x \<in> set (processing_progress (voice_polls (voice_step s ev) evs j)). x = 0"
    using Cons.IH voice_ok_step [OF Cons.prems] by blast
  show ?case unfolding split using hd rest by auto
qed

lemma all_zero_sorted: "\<forall>x \<in> set xs. x = (0::int) \<Longrightarrow> sorted xs"
  by (induction xs) auto

lemma voice_ok_init:
  "voice_ok (pending (voice_sys_init env) j) (voice_jobs (backend (voice_sys_init env)) j)"
  by (simp add: voice_ok_def voice_sys_init_def voice_backend_init_def opt_field_def)

lemma voice_progress_sorted:
  "sorted (processing_progress (voice_polls (voice_sys_init env) evs j))"
  using voice_polls_zero [OF voice_ok_init] all_zero_sorted by blast



text \<open>
  Claim C7. Under every schedule of calls, task steps and status queries, the progress
  values that the status queries for one job report while its status is
  \<open>processing\<close> never decrease: for a content generation job they increase with the
  stages (0, 20, 60, 85), for a voice job they are 0 until the job is terminal.
\<close>

theorem progress_monotone_while_processing:
  "sorted (processing_progress (content_polls content_sys_init evs j))
   \<and> sorted (processing_progress (voice_polls (voice_sys_init env) evs' j'))"
  using content_progress_sorted voice_progress_sorted by blast

theorem progress_monotone_while_processing_witness:
  "processing_progress (content_polls content_sys_init
      [CallGenerateContent ''j1'' ''u1'' ''hello'' ''video'' (Some ''v1'') (Some ''a1'') ''t0'' 3,
       CallGetGenerationStatus ''j1'',
       ResumeGeneration ''j1'' None 1 ''t1'',
       CallGetGenerationStatus ''j1''] ''j1'') = [0, 20]
   \<and> sorted [0, (20::int)]"
proof -
  let ?evs = "[CallGenerateContent ''j1'' ''u1'' ''hello'' ''video'' (Some ''v1'') (Some ''a1'') ''t0'' 3,
       CallGetGenerationStatus ''j1'',
       ResumeGeneration ''j1'' None 1 ''t1'',
       CallGetGenerationStatus ''j1'']"
  have e: "processing_progress (content_polls content_sys_init ?evs ''j1'') = [0, 20]"
    by code_simp
  from progress_monotone_while_processing [of ?evs "''j1''" Map.empty "[]" "''j1''"]
  have "sorted (processing_progress (content_polls content_sys_init ?evs ''j1''))" by blast
  then show ?thesis using e by simp
qed

section \<open>Result and error of a terminal job\<close>


























end
